theory Spec2Isabelle
  imports Main
begin

section \<open>Overview\<close>

text \<open>
  A verification development for the Tmux Orchestrator repository. Three parts of the
  repository are modelled from its files:
  \<^item> the AI cross-verification of the strategy-consultant application
    (\<open>ai-services.js\<close>: \<open>callClaude\<close>, \<open>callOpenAI\<close>, \<open>callGemini\<close>,
    \<open>verifyArgumentWithAI\<close>);
  \<^item> the shell utilities of \<open>orchestra_utils.sh\<close> (\<open>deploy_project\<close>,
    \<open>get_session_status\<close>, \<open>broadcast_to_session\<close>, \<open>daily_standup\<close>,
    \<open>check_git_status\<close>, \<open>git_commit_reminder\<close>, \<open>create_pm\<close>);
  \<^item> the team-size templates and the agent roles of the README.
  The registry and the deployer behind them (\<open>tmuxorchestra.py\<close>) are not among the
  sources; a last part models them from the specification and says so at every
  definition. The definitions come first, the properties after them.
\<close>

section \<open>Text\<close>

text \<open>
  The shell scripts and the JavaScript of the repository carry Japanese text. A text is
  modelled as \<^typ>\<open>string\<close> holding its UTF-8 bytes: the ASCII part is written as a
  literal and every other byte as \<open>CHR 0x..\<close>. Two texts are equal exactly when their
  byte sequences are, which is all the programs below ever ask of a text.
\<close>

section \<open>AI cross-verification (\<open>ai-services.js\<close>)\<close>

subsection \<open>Values\<close>

text \<open>
  What \<open>callClaude\<close>, \<open>callOpenAI\<close> and \<open>callGemini\<close> return: an object with
  some of the fields \<open>error\<close>, \<open>feedback\<close> and \<open>model\<close>. A field the object literal
  does not mention is \<open>None\<close> (JavaScript's \<open>undefined\<close>).
\<close>

record ai_result =
  error :: "string option"
  feedback :: "string option"
  model :: "string option"

text \<open>The object \<open>verifyArgumentWithAI\<close> returns (\<open>AIFeedback\<close> in \<open>types/index.ts\<close>).\<close>

record AIFeedback =
  claude_feedback :: string
  openai_feedback :: string
  gemini_feedback :: string
  consensus :: nat
  overall_feedback :: string

text \<open>
  The row of table \<open>arguments\<close> handed to \<open>verifyArgumentWithAI\<close> (its caller in
  \<open>server.js\<close> answers 404 and does not call it when there is no row); only the five
  columns the prompt interpolates are read. A column is \<open>TEXT\<close> and may be \<open>NULL\<close>.
\<close>

record argument =
  major_point :: "string option"
  medium_point :: "string option"
  minor_point :: "string option"
  hypothesis :: "string option"
  verification_approach :: "string option"

text \<open>
  The prompt is a template literal: fixed text around the five interpolated columns. The
  fixed text never changes, so the prompt is represented by the five values it is built
  from.
\<close>

datatype prompt = Prompt "string option" "string option" "string option" "string option" "string option"

definition prompt_of :: "argument \<Rightarrow> prompt" where
  "prompt_of a = Prompt (major_point a) (medium_point a) (minor_point a) (hypothesis a)
     (verification_approach a)"

text \<open>
  The outcome of the statements inside a call function's \<open>try\<close> block after the key
  check: the HTTP request and the read of the reply's text field. Either something throws
  (the request fails, or the reply has not the expected shape), or the read yields a value
  (\<open>None\<close> when the field is missing).
\<close>

datatype post_outcome = PostThrew | PostText "string option"

text \<open>The process environment and the three remote services, as inputs.\<close>

record ai_env =
  ANTHROPIC_API_KEY :: "string option"
  OPENAI_API_KEY :: "string option"
  GOOGLE_API_KEY :: "string option"
  anthropicClient_post :: "prompt \<Rightarrow> post_outcome"
  openaiClient_post :: "prompt \<Rightarrow> post_outcome"
  geminiClient_post :: "prompt \<Rightarrow> post_outcome"

text \<open>An \<open>async\<close> function returns a promise, which settles one of two ways.\<close>

datatype 'a promise = Fulfilled 'a | Rejected

text \<open>JavaScript's \<open>!v\<close> for a value that is \<open>undefined\<close> or a string.\<close>

definition js_falsy :: "string option \<Rightarrow> bool" where
  "js_falsy v = (case v of None \<Rightarrow> True | Some s \<Rightarrow> s = [])"

text \<open>JavaScript's \<open>v || d\<close> for such a value and a string \<open>d\<close>.\<close>

definition js_or :: "string option \<Rightarrow> string \<Rightarrow> string" where
  "js_or v d = (case v of None \<Rightarrow> d | Some s \<Rightarrow> if s = [] then d else s)"

subsection \<open>The texts of the source\<close>

text \<open>
  The Japanese string literals of \<open>ai-services.js\<close>, byte for byte. In English:
  \<^item> \<open>claude_error_feedback\<close>, \<open>openai_error_feedback\<close>, \<open>gemini_error_feedback\<close>:
    "an error occurred while calling the Claude (OpenAI, Gemini) API";
  \<^item> \<open>feedback_unavailable\<close>: "could not be obtained because of an error";
  \<^item> \<open>feedback_system_error\<close>: "a system error occurred";
  \<^item> \<open>overall_all_agree\<close>: "all models agree: a high-quality design of the points";
  \<^item> \<open>overall_majority\<close>: "adopted by majority: some room for improvement";
  \<^item> \<open>overall_needs_review\<close>: "needs review: the design of the points must be revised";
  \<^item> \<open>overall_api_error\<close>: "API connection error: run the verification again";
  \<^item> \<open>overall_system_error\<close>: "system error: try again after a while".
  The last five start with an emoji.
\<close>

definition claude_error_feedback :: string where
  "claude_error_feedback =
     ''Claude API'' @ [CHR 0xE3, CHR 0x81, CHR 0xAE, CHR 0xE5, CHR 0x91, CHR 0xBC,
     CHR 0xE3, CHR 0x81, CHR 0xB3, CHR 0xE5, CHR 0x87, CHR 0xBA, CHR 0xE3, CHR 0x81,
     CHR 0x97, CHR 0xE3, CHR 0x81, CHR 0xA7, CHR 0xE3, CHR 0x82, CHR 0xA8, CHR 0xE3,
     CHR 0x83, CHR 0xA9, CHR 0xE3, CHR 0x83, CHR 0xBC, CHR 0xE3, CHR 0x81, CHR 0x8C,
     CHR 0xE7, CHR 0x99, CHR 0xBA, CHR 0xE7, CHR 0x94, CHR 0x9F, CHR 0xE3, CHR 0x81,
     CHR 0x97, CHR 0xE3, CHR 0x81, CHR 0xBE, CHR 0xE3, CHR 0x81, CHR 0x97, CHR 0xE3,
     CHR 0x81, CHR 0x9F]"

definition openai_error_feedback :: string where
  "openai_error_feedback =
     ''OpenAI API'' @ [CHR 0xE3, CHR 0x81, CHR 0xAE, CHR 0xE5, CHR 0x91, CHR 0xBC,
     CHR 0xE3, CHR 0x81, CHR 0xB3, CHR 0xE5, CHR 0x87, CHR 0xBA, CHR 0xE3, CHR 0x81,
     CHR 0x97, CHR 0xE3, CHR 0x81, CHR 0xA7, CHR 0xE3, CHR 0x82, CHR 0xA8, CHR 0xE3,
     CHR 0x83, CHR 0xA9, CHR 0xE3, CHR 0x83, CHR 0xBC, CHR 0xE3, CHR 0x81, CHR 0x8C,
     CHR 0xE7, CHR 0x99, CHR 0xBA, CHR 0xE7, CHR 0x94, CHR 0x9F, CHR 0xE3, CHR 0x81,
     CHR 0x97, CHR 0xE3, CHR 0x81, CHR 0xBE, CHR 0xE3, CHR 0x81, CHR 0x97, CHR 0xE3,
     CHR 0x81, CHR 0x9F]"

definition gemini_error_feedback :: string where
  "gemini_error_feedback =
     ''Gemini API'' @ [CHR 0xE3, CHR 0x81, CHR 0xAE, CHR 0xE5, CHR 0x91, CHR 0xBC,
     CHR 0xE3, CHR 0x81, CHR 0xB3, CHR 0xE5, CHR 0x87, CHR 0xBA, CHR 0xE3, CHR 0x81,
     CHR 0x97, CHR 0xE3, CHR 0x81, CHR 0xA7, CHR 0xE3, CHR 0x82, CHR 0xA8, CHR 0xE3,
     CHR 0x83, CHR 0xA9, CHR 0xE3, CHR 0x83, CHR 0xBC, CHR 0xE3, CHR 0x81, CHR 0x8C,
     CHR 0xE7, CHR 0x99, CHR 0xBA, CHR 0xE7, CHR 0x94, CHR 0x9F, CHR 0xE3, CHR 0x81,
     CHR 0x97, CHR 0xE3, CHR 0x81, CHR 0xBE, CHR 0xE3, CHR 0x81, CHR 0x97, CHR 0xE3,
     CHR 0x81, CHR 0x9F]"

definition feedback_unavailable :: string where
  "feedback_unavailable =
     [CHR 0xE3, CHR 0x82, CHR 0xA8, CHR 0xE3, CHR 0x83, CHR 0xA9, CHR 0xE3, CHR 0x83,
     CHR 0xBC, CHR 0xE3, CHR 0x81, CHR 0xAB, CHR 0xE3, CHR 0x82, CHR 0x88, CHR 0xE3,
     CHR 0x82, CHR 0x8A, CHR 0xE5, CHR 0x8F, CHR 0x96, CHR 0xE5, CHR 0xBE, CHR 0x97,
     CHR 0xE3, CHR 0x81, CHR 0xA7, CHR 0xE3, CHR 0x81, CHR 0x8D, CHR 0xE3, CHR 0x81,
     CHR 0xBE, CHR 0xE3, CHR 0x81, CHR 0x9B, CHR 0xE3, CHR 0x82, CHR 0x93, CHR 0xE3,
     CHR 0x81, CHR 0xA7, CHR 0xE3, CHR 0x81, CHR 0x97, CHR 0xE3, CHR 0x81, CHR 0x9F]"

definition feedback_system_error :: string where
  "feedback_system_error =
     [CHR 0xE3, CHR 0x82, CHR 0xB7, CHR 0xE3, CHR 0x82, CHR 0xB9, CHR 0xE3, CHR 0x83,
     CHR 0x86, CHR 0xE3, CHR 0x83, CHR 0xA0, CHR 0xE3, CHR 0x82, CHR 0xA8, CHR 0xE3,
     CHR 0x83, CHR 0xA9, CHR 0xE3, CHR 0x83, CHR 0xBC, CHR 0xE3, CHR 0x81, CHR 0x8C,
     CHR 0xE7, CHR 0x99, CHR 0xBA, CHR 0xE7, CHR 0x94, CHR 0x9F, CHR 0xE3, CHR 0x81,
     CHR 0x97, CHR 0xE3, CHR 0x81, CHR 0xBE, CHR 0xE3, CHR 0x81, CHR 0x97, CHR 0xE3,
     CHR 0x81, CHR 0x9F]"

definition overall_all_agree :: string where
  "overall_all_agree =
     [CHR 0xE2, CHR 0x9C, CHR 0x85] @ '' '' @ [CHR 0xE5, CHR 0x85, CHR 0xA8, CHR 0xE3,
     CHR 0x83, CHR 0xA2, CHR 0xE3, CHR 0x83, CHR 0x87, CHR 0xE3, CHR 0x83, CHR 0xAB,
     CHR 0xE5, CHR 0x90, CHR 0x88, CHR 0xE6, CHR 0x84, CHR 0x8F] @ '': '' @ [CHR 0xE9,
     CHR 0xAB, CHR 0x98, CHR 0xE5, CHR 0x93, CHR 0x81, CHR 0xE8, CHR 0xB3, CHR 0xAA,
     CHR 0xE3, CHR 0x81, CHR 0xAA, CHR 0xE8, CHR 0xAB, CHR 0x96, CHR 0xE7, CHR 0x82,
     CHR 0xB9, CHR 0xE8, CHR 0xA8, CHR 0xAD, CHR 0xE8, CHR 0xA8, CHR 0x88, CHR 0xE3,
     CHR 0x81, CHR 0xA7, CHR 0xE3, CHR 0x81, CHR 0x99, CHR 0xE3, CHR 0x80, CHR 0x82]"

definition overall_majority :: string where
  "overall_majority =
     [CHR 0xE2, CHR 0x9A, CHR 0xA0, CHR 0xEF, CHR 0xB8, CHR 0x8F] @ '' '' @ [CHR 0xE5,
     CHR 0xA4, CHR 0x9A, CHR 0xE6, CHR 0x95, CHR 0xB0, CHR 0xE6, CHR 0xB1, CHR 0xBA,
     CHR 0xE3, CHR 0x81, CHR 0xA7, CHR 0xE6, CHR 0x8E, CHR 0xA1, CHR 0xE7, CHR 0x94,
     CHR 0xA8] @ '': '' @ [CHR 0xE4, CHR 0xB8, CHR 0x80, CHR 0xE9, CHR 0x83, CHR 0xA8,
     CHR 0xE6, CHR 0x94, CHR 0xB9, CHR 0xE5, CHR 0x96, CHR 0x84, CHR 0xE3, CHR 0x81,
     CHR 0xAE, CHR 0xE4, CHR 0xBD, CHR 0x99, CHR 0xE5, CHR 0x9C, CHR 0xB0, CHR 0xE3,
     CHR 0x81, CHR 0x8C, CHR 0xE3, CHR 0x81, CHR 0x82, CHR 0xE3, CHR 0x82, CHR 0x8A,
     CHR 0xE3, CHR 0x81, CHR 0xBE, CHR 0xE3, CHR 0x81, CHR 0x99, CHR 0xE3, CHR 0x80,
     CHR 0x82]"

definition overall_needs_review :: string where
  "overall_needs_review =
     [CHR 0xF0, CHR 0x9F, CHR 0x94, CHR 0xB4] @ '' '' @ [CHR 0xE8, CHR 0xA6, CHR 0x81,
     CHR 0xE6, CHR 0xA4, CHR 0x9C, CHR 0xE8, CHR 0xA8, CHR 0x8E] @ '': '' @ [CHR 0xE8,
     CHR 0xAB, CHR 0x96, CHR 0xE7, CHR 0x82, CHR 0xB9, CHR 0xE8, CHR 0xA8, CHR 0xAD,
     CHR 0xE8, CHR 0xA8, CHR 0x88, CHR 0xE3, CHR 0x81, CHR 0xAE, CHR 0xE8, CHR 0xA6,
     CHR 0x8B, CHR 0xE7, CHR 0x9B, CHR 0xB4, CHR 0xE3, CHR 0x81, CHR 0x97, CHR 0xE3,
     CHR 0x81, CHR 0x8C, CHR 0xE5, CHR 0xBF, CHR 0x85, CHR 0xE8, CHR 0xA6, CHR 0x81,
     CHR 0xE3, CHR 0x81, CHR 0xA7, CHR 0xE3, CHR 0x81, CHR 0x99, CHR 0xE3, CHR 0x80,
     CHR 0x82]"

definition overall_api_error :: string where
  "overall_api_error =
     [CHR 0xE2, CHR 0x9D, CHR 0x8C] @ '' API'' @ [CHR 0xE6, CHR 0x8E, CHR 0xA5, CHR 0xE7,
     CHR 0xB6, CHR 0x9A, CHR 0xE3, CHR 0x82, CHR 0xA8, CHR 0xE3, CHR 0x83, CHR 0xA9,
     CHR 0xE3, CHR 0x83, CHR 0xBC] @ '': '' @ [CHR 0xE6, CHR 0xA4, CHR 0x9C, CHR 0xE8,
     CHR 0xA8, CHR 0xBC, CHR 0xE3, CHR 0x82, CHR 0x92, CHR 0xE5, CHR 0x86, CHR 0x8D,
     CHR 0xE5, CHR 0xAE, CHR 0x9F, CHR 0xE8, CHR 0xA1, CHR 0x8C, CHR 0xE3, CHR 0x81,
     CHR 0x97, CHR 0xE3, CHR 0x81, CHR 0xA6, CHR 0xE3, CHR 0x81, CHR 0x8F, CHR 0xE3,
     CHR 0x81, CHR 0xA0, CHR 0xE3, CHR 0x81, CHR 0x95, CHR 0xE3, CHR 0x81, CHR 0x84,
     CHR 0xE3, CHR 0x80, CHR 0x82]"

definition overall_system_error :: string where
  "overall_system_error =
     [CHR 0xE2, CHR 0x9D, CHR 0x8C] @ '' '' @ [CHR 0xE3, CHR 0x82, CHR 0xB7, CHR 0xE3,
     CHR 0x82, CHR 0xB9, CHR 0xE3, CHR 0x83, CHR 0x86, CHR 0xE3, CHR 0x83, CHR 0xA0,
     CHR 0xE3, CHR 0x82, CHR 0xA8, CHR 0xE3, CHR 0x83, CHR 0xA9, CHR 0xE3, CHR 0x83,
     CHR 0xBC] @ '': '' @ [CHR 0xE3, CHR 0x81, CHR 0x97, CHR 0xE3, CHR 0x81, CHR 0xB0,
     CHR 0xE3, CHR 0x82, CHR 0x89, CHR 0xE3, CHR 0x81, CHR 0x8F, CHR 0xE6, CHR 0x99,
     CHR 0x82, CHR 0xE9, CHR 0x96, CHR 0x93, CHR 0xE3, CHR 0x82, CHR 0x92, CHR 0xE3,
     CHR 0x81, CHR 0x8A, CHR 0xE3, CHR 0x81, CHR 0x84, CHR 0xE3, CHR 0x81, CHR 0xA6,
     CHR 0xE5, CHR 0x86, CHR 0x8D, CHR 0xE8, CHR 0xA9, CHR 0xA6, CHR 0xE8, CHR 0xA1,
     CHR 0x8C, CHR 0xE3, CHR 0x81, CHR 0x97, CHR 0xE3, CHR 0x81, CHR 0xA6, CHR 0xE3,
     CHR 0x81, CHR 0x8F, CHR 0xE3, CHR 0x81, CHR 0xA0, CHR 0xE3, CHR 0x81, CHR 0x95,
     CHR 0xE3, CHR 0x81, CHR 0x84, CHR 0xE3, CHR 0x80, CHR 0x82]"

subsection \<open>The three model calls\<close>

text \<open>
  Each call function is one \<open>try\<close>/\<open>catch\<close>: a missing key returns an object with
  only \<open>error\<close>; a reply returns \<open>feedback\<close> and \<open>model\<close>; anything thrown is caught
  and returns \<open>error\<close> and \<open>feedback\<close>. What the HTTP client or a failed property read
  throws is an error object, so the handler's own reads (\<open>error.response?.data\<close>,
  \<open>error.message\<close>) do not throw, and the promise is fulfilled on every path.
\<close>

definition callClaude :: "ai_env \<Rightarrow> prompt \<Rightarrow> ai_result promise" where
  "callClaude env p =
     (if js_falsy (ANTHROPIC_API_KEY env)
      then Fulfilled \<lparr>error = Some ''Anthropic API key not configured'', feedback = None,
             model = None\<rparr>
      else (case anthropicClient_post env p of
              PostText t \<Rightarrow>
                Fulfilled \<lparr>error = None, feedback = t, model = Some ''Claude 3.5 Sonnet''\<rparr>
            | PostThrew \<Rightarrow>
                Fulfilled \<lparr>error = Some ''Claude API error'',
                  feedback = Some claude_error_feedback, model = None\<rparr>))"

definition callOpenAI :: "ai_env \<Rightarrow> prompt \<Rightarrow> ai_result promise" where
  "callOpenAI env p =
     (if js_falsy (OPENAI_API_KEY env)
      then Fulfilled \<lparr>error = Some ''OpenAI API key not configured'', feedback = None,
             model = None\<rparr>
      else (case openaiClient_post env p of
              PostText t \<Rightarrow>
                Fulfilled \<lparr>error = None, feedback = t, model = Some ''GPT-4''\<rparr>
            | PostThrew \<Rightarrow>
                Fulfilled \<lparr>error = Some ''OpenAI API error'',
                  feedback = Some openai_error_feedback, model = None\<rparr>))"

definition callGemini :: "ai_env \<Rightarrow> prompt \<Rightarrow> ai_result promise" where
  "callGemini env p =
     (if js_falsy (GOOGLE_API_KEY env)
      then Fulfilled \<lparr>error = Some ''Google API key not configured'', feedback = None,
             model = None\<rparr>
      else (case geminiClient_post env p of
              PostText t \<Rightarrow>
                Fulfilled \<lparr>error = None, feedback = t, model = Some ''Gemini Pro''\<rparr>
            | PostThrew \<Rightarrow>
                Fulfilled \<lparr>error = Some ''Gemini API error'',
                  feedback = Some gemini_error_feedback, model = None\<rparr>))"

subsection \<open>\<open>verifyArgumentWithAI\<close>\<close>

text \<open>\<open>await Promise.all([a, b, c])\<close>: the three values, or a rejection if one rejects.\<close>

fun promise_all3 :: "'a promise \<Rightarrow> 'a promise \<Rightarrow> 'a promise \<Rightarrow> ('a \<times> 'a \<times> 'a) promise" where
  "promise_all3 (Fulfilled a) (Fulfilled b) (Fulfilled c) = Fulfilled (a, b, c)"
| "promise_all3 _ _ _ = Rejected"

text \<open>
  The \<open>try\<close> block awaits the three calls, counts the results whose \<open>error\<close> is falsy
  (the source's \<open>consensus\<close>, here \<open>n\<close>) and picks the overall text by that count;
  the \<open>catch\<close> block returns a fixed object. Both return, so the promise of
  \<open>verifyArgumentWithAI\<close> is fulfilled on both.
\<close>

definition verifyArgumentWithAI :: "ai_env \<Rightarrow> argument \<Rightarrow> AIFeedback promise" where
  "verifyArgumentWithAI env a =
     (let p = prompt_of a in
      case promise_all3 (callClaude env p) (callOpenAI env p) (callGemini env p) of
        Fulfilled (claudeResult, openaiResult, geminiResult) \<Rightarrow>
          (let validResponses =
                 filter (\<lambda>result. js_falsy (error result))
                   [claudeResult, openaiResult, geminiResult];
               n = length validResponses;
               overallFeedback =
                 (if n = 3 then overall_all_agree
                  else if n = 2 then overall_majority
                  else if n = 1 then overall_needs_review
                  else overall_api_error)
           in Fulfilled
                \<lparr>claude_feedback = js_or (feedback claudeResult) feedback_unavailable,
                 openai_feedback = js_or (feedback openaiResult) feedback_unavailable,
                 gemini_feedback = js_or (feedback geminiResult) feedback_unavailable,
                 consensus = n,
                 overall_feedback = overallFeedback\<rparr>)
      | Rejected \<Rightarrow>
          Fulfilled
            \<lparr>claude_feedback = feedback_system_error,
             openai_feedback = feedback_system_error,
             gemini_feedback = feedback_system_error,
             consensus = 0,
             overall_feedback = overall_system_error\<rparr>)"

section \<open>The shell utilities (\<open>orchestra_utils.sh\<close>)\<close>

subsection \<open>Commands, the outside world and the shell's state\<close>

text \<open>
  The utilities act on the outside only by running commands. Each command that has an
  effect is recorded, in the order the shell runs it:
  \<^item> \<open>Stdout t\<close>: \<open>echo\<close> writes the text \<open>t\<close> (and a newline);
  \<^item> \<open>SendMessage target message\<close>: \<open>"$SEND_MESSAGE_SCRIPT" target message\<close>, the
    repository's \<open>send-claude-message.sh\<close>;
  \<^item> \<open>SendKeys target text\<close>: \<open>tmux send-keys -t target text Enter\<close>;
  \<^item> \<open>CapturePane target\<close>: \<open>tmux capture-pane -t target -p\<close>;
  \<^item> \<open>NewWindow session name dir\<close>: \<open>tmux new-window -t session -n name -c dir\<close>;
  \<^item> \<open>Sleep n\<close>: \<open>sleep n\<close>;
  \<^item> \<open>PythonDeploy project path team_size\<close> and \<open>PythonStatus session\<close>: the two
    calls of \<open>tmuxorchestra.py\<close>.
\<close>

datatype action =
    Stdout string
  | SendMessage string string
  | SendKeys string string
  | CapturePane string
  | NewWindow string string string
  | Sleep nat
  | PythonDeploy string string string
  | PythonStatus string

text \<open>
  What the outside answers. \<open>list_windows\<close> gives a session's windows as index and
  name, in tmux's order (no window for a session that does not exist);
  \<open>find_coding name\<close> is the output of
  \<open>find ~/Coding -maxdepth 1 -type d -iname "*name*"\<close>, one path a line;
  \<open>exit_status\<close> is the exit status of an external command.
\<close>

record shell_world =
  list_sessions :: "string list"
  list_windows :: "string \<Rightarrow> (nat \<times> string) list"
  capture_pane :: "string \<Rightarrow> string list"
  pane_current_path :: "string \<Rightarrow> string"
  find_coding :: "string \<Rightarrow> string list"
  exit_status :: "action \<Rightarrow> nat"

text \<open>The shell's state: what it has run so far, and \<open>$?\<close>.\<close>

record sh =
  trace :: "action list"
  last_status :: nat

definition sh0 :: sh where
  "sh0 = \<lparr>trace = [], last_status = 0\<rparr>"

definition echo :: "string \<Rightarrow> sh \<Rightarrow> sh" where
  "echo t s = \<lparr>trace = trace s @ [Stdout t], last_status = 0\<rparr>"

definition sleep :: "nat \<Rightarrow> sh \<Rightarrow> sh" where
  "sleep n s = \<lparr>trace = trace s @ [Sleep n], last_status = 0\<rparr>"

definition command :: "shell_world \<Rightarrow> action \<Rightarrow> sh \<Rightarrow> sh" where
  "command w a s = \<lparr>trace = trace s @ [a], last_status = exit_status w a\<rparr>"

text \<open>A list of commands, one after another.\<close>

definition script :: "(sh \<Rightarrow> sh) list \<Rightarrow> sh \<Rightarrow> sh" where
  "script cs s = foldl (\<lambda>s c. c s) s cs"

text \<open>
  \<open>... | while read -r line; do body; done\<close>: the body runs once for every line, in
  order. The loop's status is the status of the last command the body ran, and 0 when
  the body never ran. No utility sets \<open>set -e\<close>, so a failing command does not end a loop.
\<close>

definition while_read :: "'a list \<Rightarrow> ('a \<Rightarrow> sh \<Rightarrow> sh) \<Rightarrow> sh \<Rightarrow> sh" where
  "while_read lines body s = foldl (\<lambda>s l. body l s) (s\<lparr>last_status := 0\<rparr>) lines"

subsection \<open>Text tools\<close>

text \<open>A window index as tmux prints it: decimal, no leading zero.\<close>

definition digit_char :: "nat \<Rightarrow> char" where
  "digit_char d = ''0123456789'' ! d"

function show_nat :: "nat \<Rightarrow> string" where
  "show_nat n = (if n < 10 then [digit_char n] else show_nat (n div 10) @ [digit_char (n mod 10)])"
  by pat_completeness auto
termination
  by (relation "measure id") auto

declare show_nat.simps [simp del]

text \<open>A line of \<open>tmux list-windows -F "#{window_index}:#{window_name}"\<close>.\<close>

definition window_info_line :: "nat \<times> string \<Rightarrow> string" where
  "window_info_line iw = show_nat (fst iw) @ '':'' @ snd iw"

text \<open>
  \<open>cut -d: -f1\<close> and \<open>cut -d: -f2-\<close>: the text before the first colon and the text
  after it; a line without a colon is printed whole by both.
\<close>

definition cut_f1 :: "string \<Rightarrow> string" where
  "cut_f1 l = takeWhile (\<lambda>c. c \<noteq> CHR '':'') l"

definition cut_f2 :: "string \<Rightarrow> string" where
  "cut_f2 l = (if CHR '':'' \<in> set l then tl (dropWhile (\<lambda>c. c \<noteq> CHR '':'') l) else l)"

text \<open>\<open>tail -n\<close>: the last \<open>n\<close> lines.\<close>

definition tail_lines :: "nat \<Rightarrow> 'a list \<Rightarrow> 'a list" where
  "tail_lines n ls = drop (length ls - n) ls"

text \<open>
  \<open>grep -i "dev\|claude"\<close>: the lines that contain \<open>dev\<close> or \<open>claude\<close>, whatever
  the case of their ASCII letters.
\<close>

definition lower_char :: "char \<Rightarrow> char" where
  "lower_char c =
     (if of_char c \<ge> (65::nat) \<and> of_char c \<le> (90::nat) then char_of (of_char c + (32::nat)) else c)"

fun contains :: "string \<Rightarrow> string \<Rightarrow> bool" where
  "contains pat [] = (pat = [])"
| "contains pat (c # cs) = (take (length pat) (c # cs) = pat \<or> contains pat cs)"

definition grep_i_dev_claude :: "string \<Rightarrow> bool" where
  "grep_i_dev_claude l =
     (contains ''dev'' (map lower_char l) \<or> contains ''claude'' (map lower_char l))"

text \<open>\<open>basename\<close> of a path that does not end in a slash, as \<open>find\<close> prints it.\<close>

definition basename :: "string \<Rightarrow> string" where
  "basename p = rev (takeWhile (\<lambda>c. c \<noteq> CHR ''/'') (rev p))"

subsection \<open>The texts of the script\<close>

text \<open>
  The Japanese messages and progress lines, byte for byte, with the shell variables they
  interpolate as arguments. In English:
  \<^item> \<open>deploy_not_found_line\<close>: "error: no project containing 'name' found in ~/Coding";
  \<^item> \<open>deploy_found_line\<close>: "project found: path";
  \<^item> \<open>deploy_team_line\<close>: "deploying the team_size team...";
  \<^item> \<open>broadcast_line\<close>: "sending to session:window";
  \<^item> \<open>standup_message\<close>: "daily stand-up: 1) what you finished yesterday, 2) what
    you work on today, 3) tell me your blockers";
  \<^item> \<open>standup_line\<close>: "starting the daily stand-up of session...";
  \<^item> \<open>git_check_line\<close>: "checking the git status of all windows of session...";
  \<^item> \<open>git_window_line\<close>: "--- window: name ---", written by \<open>echo -e\<close> after a
    newline (a window name is taken to hold no backslash escape);
  \<^item> \<open>commit_reminder_message\<close>: "git reminder: if you have worked 30 minutes or more
    without a commit, commit your work now with a meaningful message";
  \<^item> \<open>commit_reminder_line\<close>: "sending the commit reminder to target...";
  \<^item> \<open>pm_briefing\<close>: the project manager's briefing (five responsibilities, then
    "analyse the project and introduce yourself to the developer in window 0");
  \<^item> \<open>pm_created_line\<close>: "created the project manager at session:window".
\<close>

definition deploy_not_found_line :: "string \<Rightarrow> string" where
  "deploy_not_found_line project_name =
     [CHR 0xE3, CHR 0x82, CHR 0xA8, CHR 0xE3, CHR 0x83, CHR 0xA9, CHR 0xE3, CHR 0x83,
     CHR 0xBC] @ '': ~/Coding'' @ [CHR 0xE3, CHR 0x81, CHR 0xAB, CHR 0x27] @ project_name
     @ [CHR 0x27, CHR 0xE3, CHR 0x82, CHR 0x92, CHR 0xE5, CHR 0x90, CHR 0xAB, CHR 0xE3,
     CHR 0x82, CHR 0x80, CHR 0xE3, CHR 0x83, CHR 0x97, CHR 0xE3, CHR 0x83, CHR 0xAD,
     CHR 0xE3, CHR 0x82, CHR 0xB8, CHR 0xE3, CHR 0x82, CHR 0xA7, CHR 0xE3, CHR 0x82,
     CHR 0xAF, CHR 0xE3, CHR 0x83, CHR 0x88, CHR 0xE3, CHR 0x81, CHR 0x8C, CHR 0xE8,
     CHR 0xA6, CHR 0x8B, CHR 0xE3, CHR 0x81, CHR 0xA4, CHR 0xE3, CHR 0x81, CHR 0x8B,
     CHR 0xE3, CHR 0x82, CHR 0x8A, CHR 0xE3, CHR 0x81, CHR 0xBE, CHR 0xE3, CHR 0x81,
     CHR 0x9B, CHR 0xE3, CHR 0x82, CHR 0x93]"

definition deploy_found_line :: "string \<Rightarrow> string" where
  "deploy_found_line project_path =
     [CHR 0xE3, CHR 0x83, CHR 0x97, CHR 0xE3, CHR 0x83, CHR 0xAD, CHR 0xE3, CHR 0x82,
     CHR 0xB8, CHR 0xE3, CHR 0x82, CHR 0xA7, CHR 0xE3, CHR 0x82, CHR 0xAF, CHR 0xE3,
     CHR 0x83, CHR 0x88, CHR 0xE3, CHR 0x82, CHR 0x92, CHR 0xE7, CHR 0x99, CHR 0xBA,
     CHR 0xE8, CHR 0xA6, CHR 0x8B] @ '': '' @ project_path"

definition deploy_team_line :: "string \<Rightarrow> string" where
  "deploy_team_line team_size =
     team_size @ '' '' @ [CHR 0xE3, CHR 0x83, CHR 0x81, CHR 0xE3, CHR 0x83, CHR 0xBC,
     CHR 0xE3, CHR 0x83, CHR 0xA0, CHR 0xE3, CHR 0x82, CHR 0x92, CHR 0xE5, CHR 0xB1,
     CHR 0x95, CHR 0xE9, CHR 0x96, CHR 0x8B, CHR 0xE4, CHR 0xB8, CHR 0xAD] @ ''...''"

definition broadcast_line :: "string \<Rightarrow> string \<Rightarrow> string" where
  "broadcast_line session window =
     session @ '':'' @ window @ '' '' @ [CHR 0xE3, CHR 0x81, CHR 0xAB, CHR 0xE9,
     CHR 0x80, CHR 0x81, CHR 0xE4, CHR 0xBF, CHR 0xA1, CHR 0xE4, CHR 0xB8, CHR 0xAD]"

definition standup_message :: "string" where
  "standup_message =
     [CHR 0xE3, CHR 0x83, CHR 0x87, CHR 0xE3, CHR 0x82, CHR 0xA4, CHR 0xE3, CHR 0x83,
     CHR 0xAA, CHR 0xE3, CHR 0x83, CHR 0xBC, CHR 0xE3, CHR 0x82, CHR 0xB9, CHR 0xE3,
     CHR 0x82, CHR 0xBF, CHR 0xE3, CHR 0x83, CHR 0xB3, CHR 0xE3, CHR 0x83, CHR 0x89,
     CHR 0xE3, CHR 0x82, CHR 0xA2, CHR 0xE3, CHR 0x83, CHR 0x83, CHR 0xE3, CHR 0x83,
     CHR 0x97] @ '': 1) '' @ [CHR 0xE6, CHR 0x98, CHR 0xA8, CHR 0xE6, CHR 0x97, CHR 0xA5,
     CHR 0xE5, CHR 0xAE, CHR 0x8C, CHR 0xE4, CHR 0xBA, CHR 0x86, CHR 0xE3, CHR 0x81,
     CHR 0x97, CHR 0xE3, CHR 0x81, CHR 0x9F, CHR 0xE3, CHR 0x81, CHR 0x93, CHR 0xE3,
     CHR 0x81, CHR 0xA8, CHR 0xE3, CHR 0x80, CHR 0x81] @ ''2) '' @ [CHR 0xE4, CHR 0xBB,
     CHR 0x8A, CHR 0xE6, CHR 0x97, CHR 0xA5, CHR 0xE5, CHR 0x8F, CHR 0x96, CHR 0xE3,
     CHR 0x82, CHR 0x8A, CHR 0xE7, CHR 0xB5, CHR 0x84, CHR 0xE3, CHR 0x82, CHR 0x80,
     CHR 0xE3, CHR 0x81, CHR 0x93, CHR 0xE3, CHR 0x81, CHR 0xA8, CHR 0xE3, CHR 0x80,
     CHR 0x81] @ ''3) '' @ [CHR 0xE3, CHR 0x83, CHR 0x96, CHR 0xE3, CHR 0x83, CHR 0xAD,
     CHR 0xE3, CHR 0x83, CHR 0x83, CHR 0xE3, CHR 0x82, CHR 0xAB, CHR 0xE3, CHR 0x83,
     CHR 0xBC, CHR 0xE3, CHR 0x81, CHR 0x8C, CHR 0xE3, CHR 0x81, CHR 0x82, CHR 0xE3,
     CHR 0x82, CHR 0x8C, CHR 0xE3, CHR 0x81, CHR 0xB0, CHR 0xE6, CHR 0x95, CHR 0x99,
     CHR 0xE3, CHR 0x81, CHR 0x88, CHR 0xE3, CHR 0x81, CHR 0xA6, CHR 0xE3, CHR 0x81,
     CHR 0x8F, CHR 0xE3, CHR 0x81, CHR 0xA0, CHR 0xE3, CHR 0x81, CHR 0x95, CHR 0xE3,
     CHR 0x81, CHR 0x84]"

definition standup_line :: "string \<Rightarrow> string" where
  "standup_line session =
     session @ '' '' @ [CHR 0xE3, CHR 0x81, CHR 0xAE, CHR 0xE3, CHR 0x83, CHR 0x87,
     CHR 0xE3, CHR 0x82, CHR 0xA4, CHR 0xE3, CHR 0x83, CHR 0xAA, CHR 0xE3, CHR 0x83,
     CHR 0xBC, CHR 0xE3, CHR 0x82, CHR 0xB9, CHR 0xE3, CHR 0x82, CHR 0xBF, CHR 0xE3,
     CHR 0x83, CHR 0xB3, CHR 0xE3, CHR 0x83, CHR 0x89, CHR 0xE3, CHR 0x82, CHR 0xA2,
     CHR 0xE3, CHR 0x83, CHR 0x83, CHR 0xE3, CHR 0x83, CHR 0x97, CHR 0xE3, CHR 0x82,
     CHR 0x92, CHR 0xE9, CHR 0x96, CHR 0x8B, CHR 0xE5, CHR 0xA7, CHR 0x8B] @ ''...''"

definition git_check_line :: "string \<Rightarrow> string" where
  "git_check_line session =
     session @ '' '' @ [CHR 0xE3, CHR 0x81, CHR 0xAE, CHR 0xE3, CHR 0x81, CHR 0x99,
     CHR 0xE3, CHR 0x81, CHR 0xB9, CHR 0xE3, CHR 0x81, CHR 0xA6, CHR 0xE3, CHR 0x81,
     CHR 0xAE, CHR 0xE3, CHR 0x82, CHR 0xA6, CHR 0xE3, CHR 0x82, CHR 0xA3, CHR 0xE3,
     CHR 0x83, CHR 0xB3, CHR 0xE3, CHR 0x83, CHR 0x89, CHR 0xE3, CHR 0x82, CHR 0xA6,
     CHR 0xE3, CHR 0x81, CHR 0xAE] @ ''git'' @ [CHR 0xE3, CHR 0x82, CHR 0xB9, CHR 0xE3,
     CHR 0x83, CHR 0x86, CHR 0xE3, CHR 0x83, CHR 0xBC, CHR 0xE3, CHR 0x82, CHR 0xBF,
     CHR 0xE3, CHR 0x82, CHR 0xB9, CHR 0xE3, CHR 0x82, CHR 0x92, CHR 0xE3, CHR 0x83,
     CHR 0x81, CHR 0xE3, CHR 0x82, CHR 0xA7, CHR 0xE3, CHR 0x83, CHR 0x83, CHR 0xE3,
     CHR 0x82, CHR 0xAF, CHR 0xE4, CHR 0xB8, CHR 0xAD] @ ''...''"

definition git_window_line :: "string \<Rightarrow> string" where
  "git_window_line window_name =
     [CHR 0x0A] @ ''--- '' @ [CHR 0xE3, CHR 0x82, CHR 0xA6, CHR 0xE3, CHR 0x82, CHR 0xA3,
     CHR 0xE3, CHR 0x83, CHR 0xB3, CHR 0xE3, CHR 0x83, CHR 0x89, CHR 0xE3, CHR 0x82,
     CHR 0xA6] @ '': '' @ window_name @ '' ---''"

definition commit_reminder_message :: "string" where
  "commit_reminder_message =
     ''Git'' @ [CHR 0xE3, CHR 0x83, CHR 0xAA, CHR 0xE3, CHR 0x83, CHR 0x9E, CHR 0xE3,
     CHR 0x82, CHR 0xA4, CHR 0xE3, CHR 0x83, CHR 0xB3, CHR 0xE3, CHR 0x83, CHR 0x80,
     CHR 0xE3, CHR 0x83, CHR 0xBC] @ '': 30'' @ [CHR 0xE5, CHR 0x88, CHR 0x86, CHR 0xE4,
     CHR 0xBB, CHR 0xA5, CHR 0xE4, CHR 0xB8, CHR 0x8A, CHR 0xE3, CHR 0x82, CHR 0xB3,
     CHR 0xE3, CHR 0x83, CHR 0x9F, CHR 0xE3, CHR 0x83, CHR 0x83, CHR 0xE3, CHR 0x83,
     CHR 0x88, CHR 0xE3, CHR 0x81, CHR 0x9B, CHR 0xE3, CHR 0x81, CHR 0x9A, CHR 0xE3,
     CHR 0x81, CHR 0xAB, CHR 0xE4, CHR 0xBD, CHR 0x9C, CHR 0xE6, CHR 0xA5, CHR 0xAD,
     CHR 0xE3, CHR 0x81, CHR 0x97, CHR 0xE3, CHR 0x81, CHR 0xA6, CHR 0xE3, CHR 0x81,
     CHR 0x84, CHR 0xE3, CHR 0x82, CHR 0x8B, CHR 0xE5, CHR 0xA0, CHR 0xB4, CHR 0xE5,
     CHR 0x90, CHR 0x88, CHR 0xE3, CHR 0x81, CHR 0xAF, CHR 0xE3, CHR 0x80, CHR 0x81,
     CHR 0xE4, CHR 0xBB, CHR 0x8A, CHR 0xE3, CHR 0x81, CHR 0x99, CHR 0xE3, CHR 0x81,
     CHR 0x90, CHR 0xE6, CHR 0x84, CHR 0x8F, CHR 0xE5, CHR 0x91, CHR 0xB3, CHR 0xE3,
     CHR 0x81, CHR 0xAE, CHR 0xE3, CHR 0x81, CHR 0x82, CHR 0xE3, CHR 0x82, CHR 0x8B,
     CHR 0xE3, CHR 0x83, CHR 0xA1, CHR 0xE3, CHR 0x83, CHR 0x83, CHR 0xE3, CHR 0x82,
     CHR 0xBB, CHR 0xE3, CHR 0x83, CHR 0xBC, CHR 0xE3, CHR 0x82, CHR 0xB8, CHR 0xE3,
     CHR 0x81, CHR 0xA7, CHR 0xE4, CHR 0xBD, CHR 0x9C, CHR 0xE6, CHR 0xA5, CHR 0xAD,
     CHR 0xE3, CHR 0x82, CHR 0x92, CHR 0xE3, CHR 0x82, CHR 0xB3, CHR 0xE3, CHR 0x83,
     CHR 0x9F, CHR 0xE3, CHR 0x83, CHR 0x83, CHR 0xE3, CHR 0x83, CHR 0x88, CHR 0xE3,
     CHR 0x81, CHR 0x97, CHR 0xE3, CHR 0x81, CHR 0xA6, CHR 0xE3, CHR 0x81, CHR 0x8F,
     CHR 0xE3, CHR 0x81, CHR 0xA0, CHR 0xE3, CHR 0x81, CHR 0x95, CHR 0xE3, CHR 0x81,
     CHR 0x84, CHR 0xEF, CHR 0xBC, CHR 0x81]"

definition commit_reminder_line :: "string \<Rightarrow> string" where
  "commit_reminder_line target =
     target @ '' '' @ [CHR 0xE3, CHR 0x81, CHR 0xAB, CHR 0xE3, CHR 0x82, CHR 0xB3,
     CHR 0xE3, CHR 0x83, CHR 0x9F, CHR 0xE3, CHR 0x83, CHR 0x83, CHR 0xE3, CHR 0x83,
     CHR 0x88, CHR 0xE3, CHR 0x83, CHR 0xAA, CHR 0xE3, CHR 0x83, CHR 0x9E, CHR 0xE3,
     CHR 0x82, CHR 0xA4, CHR 0xE3, CHR 0x83, CHR 0xB3, CHR 0xE3, CHR 0x83, CHR 0x80,
     CHR 0xE3, CHR 0x83, CHR 0xBC, CHR 0xE3, CHR 0x82, CHR 0x92, CHR 0xE9, CHR 0x80,
     CHR 0x81, CHR 0xE4, CHR 0xBF, CHR 0xA1, CHR 0xE4, CHR 0xB8, CHR 0xAD] @ ''...''"

definition pm_briefing :: "string" where
  "pm_briefing =
     [CHR 0xE3, CHR 0x81, CHR 0x82, CHR 0xE3, CHR 0x81, CHR 0xAA, CHR 0xE3, CHR 0x81,
     CHR 0x9F, CHR 0xE3, CHR 0x81, CHR 0xAF, CHR 0xE3, CHR 0x81, CHR 0x93, CHR 0xE3,
     CHR 0x81, CHR 0xAE, CHR 0xE3, CHR 0x83, CHR 0x97, CHR 0xE3, CHR 0x83, CHR 0xAD,
     CHR 0xE3, CHR 0x82, CHR 0xB8, CHR 0xE3, CHR 0x82, CHR 0xA7, CHR 0xE3, CHR 0x82,
     CHR 0xAF, CHR 0xE3, CHR 0x83, CHR 0x88, CHR 0xE3, CHR 0x81, CHR 0xAE, CHR 0xE3,
     CHR 0x83, CHR 0x97, CHR 0xE3, CHR 0x83, CHR 0xAD, CHR 0xE3, CHR 0x82, CHR 0xB8,
     CHR 0xE3, CHR 0x82, CHR 0xA7, CHR 0xE3, CHR 0x82, CHR 0xAF, CHR 0xE3, CHR 0x83,
     CHR 0x88, CHR 0xE3, CHR 0x83, CHR 0x9E, CHR 0xE3, CHR 0x83, CHR 0x8D, CHR 0xE3,
     CHR 0x83, CHR 0xBC, CHR 0xE3, CHR 0x82, CHR 0xB8, CHR 0xE3, CHR 0x83, CHR 0xA3,
     CHR 0xE3, CHR 0x83, CHR 0xBC, CHR 0xE3, CHR 0x81, CHR 0xA7, CHR 0xE3, CHR 0x81,
     CHR 0x99, CHR 0xE3, CHR 0x80, CHR 0x82, CHR 0xE3, CHR 0x81, CHR 0x82, CHR 0xE3,
     CHR 0x81, CHR 0xAA, CHR 0xE3, CHR 0x81, CHR 0x9F, CHR 0xE3, CHR 0x81, CHR 0xAE,
     CHR 0xE8, CHR 0xB2, CHR 0xAC, CHR 0xE4, CHR 0xBB, CHR 0xBB, CHR 0xEF, CHR 0xBC,
     CHR 0x9A, CHR 0x0A, CHR 0x0A] @ ''1. **'' @ [CHR 0xE5, CHR 0x93, CHR 0x81, CHR 0xE8,
     CHR 0xB3, CHR 0xAA, CHR 0xE5, CHR 0x9F, CHR 0xBA, CHR 0xE6, CHR 0xBA, CHR 0x96] @
     ''**: '' @ [CHR 0xE9, CHR 0x9D, CHR 0x9E, CHR 0xE5, CHR 0xB8, CHR 0xB8, CHR 0xE3,
     CHR 0x81, CHR 0xAB, CHR 0xE9, CHR 0xAB, CHR 0x98, CHR 0xE3, CHR 0x81, CHR 0x84,
     CHR 0xE5, CHR 0x9F, CHR 0xBA, CHR 0xE6, CHR 0xBA, CHR 0x96, CHR 0xE3, CHR 0x82,
     CHR 0x92, CHR 0xE7, CHR 0xB6, CHR 0xAD, CHR 0xE6, CHR 0x8C, CHR 0x81, CHR 0xE3,
     CHR 0x81, CHR 0x99, CHR 0xE3, CHR 0x82, CHR 0x8B, CHR 0xE3, CHR 0x80, CHR 0x82,
     CHR 0xE3, CHR 0x82, CHR 0xB7, CHR 0xE3, CHR 0x83, CHR 0xA7, CHR 0xE3, CHR 0x83,
     CHR 0xBC, CHR 0xE3, CHR 0x83, CHR 0x88, CHR 0xE3, CHR 0x82, CHR 0xAB, CHR 0xE3,
     CHR 0x83, CHR 0x83, CHR 0xE3, CHR 0x83, CHR 0x88, CHR 0xE3, CHR 0x81, CHR 0xAA,
     CHR 0xE3, CHR 0x81, CHR 0x97, CHR 0xE3, CHR 0x80, CHR 0x81, CHR 0xE5, CHR 0xA6,
     CHR 0xA5, CHR 0xE5, CHR 0x8D, CHR 0x94, CHR 0xE3, CHR 0x81, CHR 0xAA, CHR 0xE3,
     CHR 0x81, CHR 0x97, CHR 0xE3, CHR 0x80, CHR 0x82, CHR 0x0A] @ ''2. **'' @ [CHR 0xE6,
     CHR 0xA4, CHR 0x9C, CHR 0xE8, CHR 0xA8, CHR 0xBC] @ ''**: '' @ [CHR 0xE3, CHR 0x81,
     CHR 0x99, CHR 0xE3, CHR 0x81, CHR 0xB9, CHR 0xE3, CHR 0x81, CHR 0xA6, CHR 0xE3,
     CHR 0x82, CHR 0x92, CHR 0xE5, CHR 0xBE, CHR 0xB9, CHR 0xE5, CHR 0xBA, CHR 0x95,
     CHR 0xE7, CHR 0x9A, CHR 0x84, CHR 0xE3, CHR 0x81, CHR 0xAB, CHR 0xE3, CHR 0x83,
     CHR 0x86, CHR 0xE3, CHR 0x82, CHR 0xB9, CHR 0xE3, CHR 0x83, CHR 0x88, CHR 0xE3,
     CHR 0x81, CHR 0x99, CHR 0xE3, CHR 0x82, CHR 0x8B, CHR 0xE3, CHR 0x80, CHR 0x82,
     CHR 0xE4, CHR 0xBF, CHR 0xA1, CHR 0xE9, CHR 0xA0, CHR 0xBC, CHR 0xE3, CHR 0x81,
     CHR 0x99, CHR 0xE3, CHR 0x82, CHR 0x8B, CHR 0xE3, CHR 0x81, CHR 0x8C, CHR 0xE6,
     CHR 0xA4, CHR 0x9C, CHR 0xE8, CHR 0xA8, CHR 0xBC, CHR 0xE3, CHR 0x81, CHR 0x99,
     CHR 0xE3, CHR 0x82, CHR 0x8B, CHR 0xE3, CHR 0x80, CHR 0x82, CHR 0x0A] @ ''3. **'' @
     [CHR 0xE3, CHR 0x83, CHR 0x81, CHR 0xE3, CHR 0x83, CHR 0xBC, CHR 0xE3, CHR 0x83,
     CHR 0xA0, CHR 0xE8, CHR 0xAA, CHR 0xBF, CHR 0xE6, CHR 0x95, CHR 0xB4] @ ''**: '' @
     [CHR 0xE3, CHR 0x83, CHR 0x81, CHR 0xE3, CHR 0x83, CHR 0xBC, CHR 0xE3, CHR 0x83,
     CHR 0xA0, CHR 0xE3, CHR 0x83, CHR 0xA1, CHR 0xE3, CHR 0x83, CHR 0xB3, CHR 0xE3,
     CHR 0x83, CHR 0x90, CHR 0xE3, CHR 0x83, CHR 0xBC, CHR 0xE9, CHR 0x96, CHR 0x93,
     CHR 0xE3, CHR 0x81, CHR 0xAE, CHR 0xE3, CHR 0x82, CHR 0xB3, CHR 0xE3, CHR 0x83,
     CHR 0x9F, CHR 0xE3, CHR 0x83, CHR 0xA5, CHR 0xE3, CHR 0x83, CHR 0x8B, CHR 0xE3,
     CHR 0x82, CHR 0xB1, CHR 0xE3, CHR 0x83, CHR 0xBC, CHR 0xE3, CHR 0x82, CHR 0xB7,
     CHR 0xE3, CHR 0x83, CHR 0xA7, CHR 0xE3, CHR 0x83, CHR 0xB3, CHR 0xE3, CHR 0x82,
     CHR 0x92, CHR 0xE5, CHR 0x8A, CHR 0xB9, CHR 0xE7, CHR 0x8E, CHR 0x87, CHR 0xE7,
     CHR 0x9A, CHR 0x84, CHR 0xE3, CHR 0x81, CHR 0xAB, CHR 0xE7, CHR 0xAE, CHR 0xA1,
     CHR 0xE7, CHR 0x90, CHR 0x86, CHR 0xE3, CHR 0x81, CHR 0x99, CHR 0xE3, CHR 0x82,
     CHR 0x8B, CHR 0xE3, CHR 0x80, CHR 0x82, CHR 0x0A] @ ''4. **'' @ [CHR 0xE9, CHR 0x80,
     CHR 0xB2, CHR 0xE6, CHR 0x8D, CHR 0x97, CHR 0xE8, CHR 0xBF, CHR 0xBD, CHR 0xE8,
     CHR 0xB7, CHR 0xA1] @ ''**: '' @ [CHR 0xE9, CHR 0x80, CHR 0x9F, CHR 0xE5, CHR 0xBA,
     CHR 0xA6, CHR 0xE3, CHR 0x82, CHR 0x92, CHR 0xE7, CHR 0x9B, CHR 0xA3, CHR 0xE8,
     CHR 0xA6, CHR 0x96, CHR 0xE3, CHR 0x81, CHR 0x97, CHR 0xE3, CHR 0x80, CHR 0x81,
     CHR 0xE3, CHR 0x83, CHR 0x96, CHR 0xE3, CHR 0x83, CHR 0xAD, CHR 0xE3, CHR 0x83,
     CHR 0x83, CHR 0xE3, CHR 0x82, CHR 0xAB, CHR 0xE3, CHR 0x83, CHR 0xBC, CHR 0xE3,
     CHR 0x82, CHR 0x92, CHR 0xE7, CHR 0x89, CHR 0xB9, CHR 0xE5, CHR 0xAE, CHR 0x9A,
     CHR 0xE3, CHR 0x81, CHR 0x97, CHR 0xE3, CHR 0x80, CHR 0x81, CHR 0xE3, CHR 0x82,
     CHR 0xAA, CHR 0xE3, CHR 0x83, CHR 0xBC, CHR 0xE3, CHR 0x82, CHR 0xB1, CHR 0xE3,
     CHR 0x82, CHR 0xB9, CHR 0xE3, CHR 0x83, CHR 0x88, CHR 0xE3, CHR 0x83, CHR 0xAC,
     CHR 0xE3, CHR 0x83, CHR 0xBC, CHR 0xE3, CHR 0x82, CHR 0xBF, CHR 0xE3, CHR 0x83,
     CHR 0xBC, CHR 0xE3, CHR 0x81, CHR 0xAB, CHR 0xE5, CHR 0xA0, CHR 0xB1, CHR 0xE5,
     CHR 0x91, CHR 0x8A, CHR 0xE3, CHR 0x81, CHR 0x99, CHR 0xE3, CHR 0x82, CHR 0x8B,
     CHR 0xE3, CHR 0x80, CHR 0x82, CHR 0x0A] @ ''5. **'' @ [CHR 0xE3, CHR 0x83, CHR 0xAA,
     CHR 0xE3, CHR 0x82, CHR 0xB9, CHR 0xE3, CHR 0x82, CHR 0xAF, CHR 0xE7, CHR 0xAE,
     CHR 0xA1, CHR 0xE7, CHR 0x90, CHR 0x86] @ ''**: '' @ [CHR 0xE5, CHR 0x95, CHR 0x8F,
     CHR 0xE9, CHR 0xA1, CHR 0x8C, CHR 0xE3, CHR 0x81, CHR 0xAB, CHR 0xE3, CHR 0x81,
     CHR 0xAA, CHR 0xE3, CHR 0x82, CHR 0x8B, CHR 0xE5, CHR 0x89, CHR 0x8D, CHR 0xE3,
     CHR 0x81, CHR 0xAB, CHR 0xE6, CHR 0xBD, CHR 0x9C, CHR 0xE5, CHR 0x9C, CHR 0xA8,
     CHR 0xE7, CHR 0x9A, CHR 0x84, CHR 0xE3, CHR 0x81, CHR 0xAA, CHR 0xE5, CHR 0x95,
     CHR 0x8F, CHR 0xE9, CHR 0xA1, CHR 0x8C, CHR 0xE3, CHR 0x82, CHR 0x92, CHR 0xE7,
     CHR 0x89, CHR 0xB9, CHR 0xE5, CHR 0xAE, CHR 0x9A, CHR 0xE3, CHR 0x81, CHR 0x99,
     CHR 0xE3, CHR 0x82, CHR 0x8B, CHR 0xE3, CHR 0x80, CHR 0x82, CHR 0x0A, CHR 0x0A,
     CHR 0xE3, CHR 0x81, CHR 0xBE, CHR 0xE3, CHR 0x81, CHR 0x9A, CHR 0xE3, CHR 0x80,
     CHR 0x81, CHR 0xE3, CHR 0x83, CHR 0x97, CHR 0xE3, CHR 0x83, CHR 0xAD, CHR 0xE3,
     CHR 0x82, CHR 0xB8, CHR 0xE3, CHR 0x82, CHR 0xA7, CHR 0xE3, CHR 0x82, CHR 0xAF,
     CHR 0xE3, CHR 0x83, CHR 0x88, CHR 0xE3, CHR 0x81, CHR 0xA8, CHR 0xE6, CHR 0x97,
     CHR 0xA2, CHR 0xE5, CHR 0xAD, CHR 0x98, CHR 0xE3, CHR 0x81, CHR 0xAE, CHR 0xE3,
     CHR 0x83, CHR 0x81, CHR 0xE3, CHR 0x83, CHR 0xBC, CHR 0xE3, CHR 0x83, CHR 0xA0,
     CHR 0xE3, CHR 0x83, CHR 0xA1, CHR 0xE3, CHR 0x83, CHR 0xB3, CHR 0xE3, CHR 0x83,
     CHR 0x90, CHR 0xE3, CHR 0x83, CHR 0xBC, CHR 0xE3, CHR 0x82, CHR 0x92, CHR 0xE5,
     CHR 0x88, CHR 0x86, CHR 0xE6, CHR 0x9E, CHR 0x90, CHR 0xE3, CHR 0x81, CHR 0x97,
     CHR 0xE3, CHR 0x80, CHR 0x81, CHR 0xE3, CHR 0x82, CHR 0xA6, CHR 0xE3, CHR 0x82,
     CHR 0xA3, CHR 0xE3, CHR 0x83, CHR 0xB3, CHR 0xE3, CHR 0x83, CHR 0x89, CHR 0xE3,
     CHR 0x82, CHR 0xA6] @ ''0'' @ [CHR 0xE3, CHR 0x81, CHR 0xAE, CHR 0xE9, CHR 0x96,
     CHR 0x8B, CHR 0xE7, CHR 0x99, CHR 0xBA, CHR 0xE8, CHR 0x80, CHR 0x85, CHR 0xE3,
     CHR 0x81, CHR 0xAB, CHR 0xE8, CHR 0x87, CHR 0xAA, CHR 0xE5, CHR 0xB7, CHR 0xB1,
     CHR 0xE7, CHR 0xB4, CHR 0xB9, CHR 0xE4, CHR 0xBB, CHR 0x8B, CHR 0xE3, CHR 0x81,
     CHR 0x97, CHR 0xE3, CHR 0x81, CHR 0xA6, CHR 0xE3, CHR 0x81, CHR 0x8F, CHR 0xE3,
     CHR 0x81, CHR 0xA0, CHR 0xE3, CHR 0x81, CHR 0x95, CHR 0xE3, CHR 0x81, CHR 0x84,
     CHR 0xE3, CHR 0x80, CHR 0x82]"

definition pm_created_line :: "string \<Rightarrow> string \<Rightarrow> string" where
  "pm_created_line session new_window =
     [CHR 0xE3, CHR 0x83, CHR 0x97, CHR 0xE3, CHR 0x83, CHR 0xAD, CHR 0xE3, CHR 0x82,
     CHR 0xB8, CHR 0xE3, CHR 0x82, CHR 0xA7, CHR 0xE3, CHR 0x82, CHR 0xAF, CHR 0xE3,
     CHR 0x83, CHR 0x88, CHR 0xE3, CHR 0x83, CHR 0x9E, CHR 0xE3, CHR 0x83, CHR 0x8D,
     CHR 0xE3, CHR 0x83, CHR 0xBC, CHR 0xE3, CHR 0x82, CHR 0xB8, CHR 0xE3, CHR 0x83,
     CHR 0xA3, CHR 0xE3, CHR 0x83, CHR 0xBC, CHR 0xE3, CHR 0x82, CHR 0x92] @ '' '' @
     session @ '':'' @ new_window @ '' '' @ [CHR 0xE3, CHR 0x81, CHR 0xAB, CHR 0xE4,
     CHR 0xBD, CHR 0x9C, CHR 0xE6, CHR 0x88, CHR 0x90, CHR 0xE3, CHR 0x81, CHR 0x97,
     CHR 0xE3, CHR 0x81, CHR 0xBE, CHR 0xE3, CHR 0x81, CHR 0x97, CHR 0xE3, CHR 0x81,
     CHR 0x9F]"

subsection \<open>The utilities\<close>

text \<open>
  \<open>deploy_project name [team_size]\<close>: the team size defaults to \<open>medium\<close> when the
  second argument is missing or empty; the project is the first directory \<open>find\<close>
  prints. Without one the function writes an error and returns 1; otherwise it runs the
  deployer and returns its status.
\<close>

definition deploy_project :: "shell_world \<Rightarrow> string \<Rightarrow> string option \<Rightarrow> sh \<Rightarrow> sh" where
  "deploy_project w project_name arg2 s =
     (let team_size = (case arg2 of None \<Rightarrow> ''medium'' | Some t \<Rightarrow> if t = [] then ''medium'' else t);
          project_path = (case find_coding w project_name of [] \<Rightarrow> [] | p # _ \<Rightarrow> p)
      in if project_path = []
         then (echo (deploy_not_found_line project_name) s)\<lparr>last_status := 1\<rparr>
         else script
                [echo (deploy_found_line project_path),
                 echo (deploy_team_line team_size),
                 command w (PythonDeploy (basename project_path) project_path team_size)] s)"

definition get_session_status :: "shell_world \<Rightarrow> string \<Rightarrow> sh \<Rightarrow> sh" where
  "get_session_status w session = command w (PythonStatus session)"

text \<open>
  \<open>broadcast_to_session session message\<close>: for every window index of the session, a
  progress line, the send script, one second of sleep. The script's status is not looked
  at.
\<close>

definition broadcast_to_session :: "shell_world \<Rightarrow> string \<Rightarrow> string \<Rightarrow> sh \<Rightarrow> sh" where
  "broadcast_to_session w session message =
     while_read (map (\<lambda>iw. show_nat (fst iw)) (list_windows w session))
       (\<lambda>window. script
          [echo (broadcast_line session window),
           command w (SendMessage (session @ '':'' @ window) message),
           sleep 1])"

definition daily_standup :: "shell_world \<Rightarrow> string \<Rightarrow> sh \<Rightarrow> sh" where
  "daily_standup w session =
     script [echo (standup_line session), broadcast_to_session w session standup_message]"

text \<open>
  \<open>check_git_status session\<close>: for every window, the command line
  \<open>git status --short\<close> is typed into the window with \<open>tmux send-keys\<close> and Enter, and
  after a second the last 20 lines of the pane are printed.
\<close>

definition check_git_status :: "shell_world \<Rightarrow> string \<Rightarrow> sh \<Rightarrow> sh" where
  "check_git_status w session =
     script
       [echo (git_check_line session),
        while_read (map window_info_line (list_windows w session))
          (\<lambda>window_info.
             let window_idx = cut_f1 window_info;
                 window_name = cut_f2 window_info
             in script
                  [echo (git_window_line window_name),
                   command w (SendKeys (session @ '':'' @ window_idx) ''git status --short''),
                   sleep 1,
                   (\<lambda>s. \<lparr>trace = trace s @ CapturePane (session @ '':'' @ window_idx) #
                           map Stdout (tail_lines 20 (capture_pane w (session @ '':'' @ window_idx))),
                         last_status = 0\<rparr>)])]"

text \<open>
  \<open>git_commit_reminder\<close>: in every session, every window whose line matches
  \<open>dev\<close> or \<open>claude\<close> gets the reminder through the send script.
\<close>

definition git_commit_reminder :: "shell_world \<Rightarrow> sh \<Rightarrow> sh" where
  "git_commit_reminder w =
     while_read (list_sessions w)
       (\<lambda>session.
          while_read (filter grep_i_dev_claude (map window_info_line (list_windows w session)))
            (\<lambda>window_info.
               let window_idx = cut_f1 window_info;
                   target = session @ '':'' @ window_idx
               in script
                    [echo (commit_reminder_line target),
                     command w (SendMessage target commit_reminder_message)]))"

text \<open>
  \<open>create_pm session\<close>: a new window after the last one (\<open>$((last_window + 1))\<close>,
  which is 1 when the session lists no window), \<open>claude\<close> typed into it with
  \<open>tmux send-keys\<close>, five seconds of sleep, then the briefing through the send script.
\<close>

definition create_pm :: "shell_world \<Rightarrow> string \<Rightarrow> sh \<Rightarrow> sh" where
  "create_pm w session =
     (let project_path = pane_current_path w (session @ '':0'');
          last_window = (case list_windows w session of [] \<Rightarrow> 0 | iw # ws \<Rightarrow> fst (last (iw # ws)));
          new_window = show_nat (last_window + 1)
      in script
           [command w (NewWindow session ''Project-Manager'' project_path),
            command w (SendKeys (session @ '':'' @ new_window) ''claude''),
            sleep 5,
            command w (SendMessage (session @ '':'' @ new_window) pm_briefing),
            echo (pm_created_line session new_window)])"

text \<open>Which commands put text into a window, and how.\<close>

fun direct_injection :: "action \<Rightarrow> bool" where
  "direct_injection (SendKeys target text) = True"
| "direct_injection _ = False"

fun via_send_script :: "action \<Rightarrow> bool" where
  "via_send_script (SendMessage target message) = True"
| "via_send_script _ = False"

text \<open>Two worlds for the examples: a session \<open>proj\<close> with three windows.\<close>

definition demo_world :: "(action \<Rightarrow> nat) \<Rightarrow> shell_world" where
  "demo_world st =
     \<lparr>list_sessions = [''proj''],
      list_windows = (\<lambda>s. if s = ''proj'' then [(0, ''dev''), (1, ''pm''), (2, ''qa'')] else []),
      capture_pane = (\<lambda>t. []),
      pane_current_path = (\<lambda>t. ''/home/u/Coding/proj''),
      find_coding = (\<lambda>n. if n = ''proj'' then [''/home/u/Coding/proj''] else []),
      exit_status = st\<rparr>"

definition all_succeed :: "action \<Rightarrow> nat" where
  "all_succeed a = 0"

definition send_to_1_fails :: "action \<Rightarrow> nat" where
  "send_to_1_fails a = (if a = SendMessage ''proj:1'' ''hi'' then 1 else 0)"

section \<open>Roles and team templates (README)\<close>

text \<open>
  The agent roles the README lists: Orchestrator, Project Manager, Developer,
  QA Engineer, DevOps, Code Reviewer, Researcher, Documentation Writer.
\<close>

datatype role =
  Orchestrator | ProjectManager | Developer | QA | DevOps | Reviewer | Researcher | DocWriter

text \<open>
  The README's team-size options, in the order it names the members:
  \<^item> \<open>small\<close>: 1 developer + 1 PM;
  \<^item> \<open>medium\<close>: 2 developers + 1 PM + 1 QA;
  \<^item> \<open>large\<close>: 3 developers + 1 PM + 1 QA + 1 DevOps + 1 reviewer.
  Any other size is none of the options.
\<close>

definition team_template :: "string \<Rightarrow> role list option" where
  "team_template team_size =
     (if team_size = ''small'' then Some [Developer, ProjectManager]
      else if team_size = ''medium'' then Some [Developer, Developer, ProjectManager, QA]
      else if team_size = ''large''
        then Some [Developer, Developer, Developer, ProjectManager, QA, DevOps, Reviewer]
      else None)"

section \<open>The orchestration engine, from the specification\<close>

text \<open>
  The registry, the deployer and the dispatcher live in \<open>tmuxorchestra.py\<close> and
  \<open>send-claude-message.sh\<close>, which are not among the sources: only their callers in
  \<open>orchestra_utils.sh\<close> and the README are. The definitions of this section follow the
  specification's sections 3, 4.1, 4.2 and 4.4.
\<close>

subsection \<open>Agents and the registry\<close>

text \<open>
  Modelled from the spec: the Agent record and its status enum (section 3); the registry's
  code is missing. The registry also keeps the session and the window an identity is
  bound to (section 2).
\<close>

datatype status = Provisioning | Active | Stalled | Unresponsive | Retired

record agent =
  identity :: string
  role :: role
  team :: string
  session :: string
  window :: string
  status :: status
  last_seen :: nat
  last_message_sent :: "(nat \<times> string) option"

type_synonym registry = "string \<rightharpoonup> agent"

datatype registry_error = DuplicateIdentity | NotFound

text \<open>
  Modelled from the spec: the identity of an agent is the key \<open>session:window\<close>
  (section 3); the code that builds it is missing.
\<close>

definition agent_key :: "string \<Rightarrow> string \<Rightarrow> string" where
  "agent_key s w = s @ '':'' @ w"

text \<open>
  Modelled from the spec: \<open>register(role, team, session, window) -> AgentID\<close> (section
  4.1), whose code is missing. It fails with \<open>DuplicateIdentity\<close> if \<open>session:window\<close>
  is registered and not Retired; otherwise it stores a fresh agent, in the first status
  of its life cycle, under that key. The clock is an input: the time of registration is
  the agent's first \<open>last_seen\<close>.
\<close>

definition register ::
  "registry \<Rightarrow> nat \<Rightarrow> role \<Rightarrow> string \<Rightarrow> string \<Rightarrow> string \<Rightarrow> registry_error + (string \<times> registry)" where
  "register reg now r t s w =
     (let k = agent_key s w;
          a = \<lparr>identity = k, role = r, team = t, session = s, window = w,
               status = Provisioning, last_seen = now, last_message_sent = None\<rparr>
      in case reg k of
           None \<Rightarrow> Inr (k, reg(k \<mapsto> a))
         | Some old \<Rightarrow>
             if status old \<noteq> Retired then Inl DuplicateIdentity else Inr (k, reg(k \<mapsto> a)))"

text \<open>Modelled from the spec: \<open>get(AgentID) -> Agent | NotFound\<close> (section 4.1); its code is missing.\<close>

definition get :: "registry \<Rightarrow> string \<Rightarrow> registry_error + agent" where
  "get reg k = (case reg k of None \<Rightarrow> Inl NotFound | Some a \<Rightarrow> Inr a)"

text \<open>
  Modelled from the spec: \<open>updateStatus(AgentID, status, observedAt)\<close> (section 4.1),
  whose code is missing. Writing an \<open>observedAt\<close> older than the stored \<open>last_seen\<close> is
  a no-op; otherwise status and \<open>last_seen\<close> are written. An unknown identity is
  \<open>NotFound\<close> (section 7).
\<close>

definition updateStatus :: "registry \<Rightarrow> string \<Rightarrow> status \<Rightarrow> nat \<Rightarrow> registry_error + registry" where
  "updateStatus reg k st observedAt =
     (case reg k of
        None \<Rightarrow> Inl NotFound
      | Some a \<Rightarrow>
          if observedAt < last_seen a then Inr reg
          else Inr (reg(k \<mapsto> a\<lparr>status := st, last_seen := observedAt\<rparr>)))"

text \<open>
  Modelled from the spec: \<open>retire(AgentID)\<close> (sections 3 and 4.1), whose code is missing:
  any status may move to Retired.
\<close>

definition retire :: "registry \<Rightarrow> string \<Rightarrow> registry_error + registry" where
  "retire reg k =
     (case reg k of
        None \<Rightarrow> Inl NotFound
      | Some a \<Rightarrow> Inr (reg(k \<mapsto> a\<lparr>status := Retired\<rparr>)))"

subsection \<open>Deployment\<close>

text \<open>
  Modelled from the spec: the Message record and the delivery outcomes (section 3), the
  Team record, and the engine's state: the registry, the teams, the append-only audit log
  and the windows the Session Gateway has created. Their code is missing.
\<close>

datatype delivery = Delivered | Retried | Failed

record message =
  sender :: "string option"
  recipient :: string
  body :: string
  sent_at :: nat
  outcome :: delivery

record team_record =
  team_id :: string
  project_path :: string
  template_size :: string
  members :: "string list"
  created_at :: nat

record engine =
  agents :: registry
  teams :: "team_record list"
  audit_log :: "message list"
  windows :: "(string \<times> string \<times> string) list"

text \<open>
  Modelled from the spec: the collaborators of the deployer (sections 4.2, 4.4 and 6), as
  inputs: whether a project path resolves; what \<open>createWindow(session, name, cwd)\<close>
  answers (\<open>None\<close> for a \<open>GatewayError\<close>); the outcome the dispatcher's
  inject-settle-submit-confirm protocol reaches for a target and a body; and the briefing
  text of a role. The Session Gateway has a state of its own, so what \<open>createWindow\<close>
  answers may depend on the windows created before: its first argument. Two calls with
  the same name can so return two windows, as a multiplexer does.
\<close>

record collaborators =
  path_resolves :: "string \<Rightarrow> bool"
  createWindow :: "(string \<times> string \<times> string) list \<Rightarrow> string \<Rightarrow> string \<Rightarrow> string \<Rightarrow> string option"
  delivery_outcome :: "string \<Rightarrow> string \<Rightarrow> delivery"
  briefing :: "role \<Rightarrow> string"

text \<open>
  Modelled from the spec: \<open>send(targetID, body) -> DeliveryResult\<close> (section 4.2), by its
  contract: every call appends one Message to the audit log, whatever the outcome. The
  script that performs the protocol is missing.
\<close>

definition send :: "collaborators \<Rightarrow> nat \<Rightarrow> string \<Rightarrow> string \<Rightarrow> engine \<Rightarrow> delivery \<times> engine" where
  "send c now target text e =
     (let d = delivery_outcome c target text
      in (d, e\<lparr>audit_log := audit_log e @
            [\<lparr>sender = None, recipient = target, body = text, sent_at = now, outcome = d\<rparr>]\<rparr>))"

text \<open>The window of a role is named after the role, as the README names the roles.\<close>

fun role_name :: "role \<Rightarrow> string" where
  "role_name Orchestrator = ''Orchestrator''"
| "role_name ProjectManager = ''Project Manager''"
| "role_name Developer = ''Developer''"
| "role_name QA = ''QA Engineer''"
| "role_name DevOps = ''DevOps''"
| "role_name Reviewer = ''Code Reviewer''"
| "role_name Researcher = ''Researcher''"
| "role_name DocWriter = ''Documentation Writer''"

datatype deploy_error = ProjectPathNotFound | UnknownTemplate

record deploy_result =
  teamID :: string
  succeeded :: "role list"
  complete :: bool

text \<open>
  Modelled from the spec: the deployer's loop over the template's entries (section 4.4),
  whose code is missing. For each role: create a window at the project path, register the
  agent, make it Active, send the role's briefing. If the window or the registration
  fails, no further role is created and the agents created so far stay. The result lists
  the roles that succeeded and the identities of their agents.
\<close>

fun deploy_roles ::
  "collaborators \<Rightarrow> nat \<Rightarrow> string \<Rightarrow> string \<Rightarrow> role list \<Rightarrow> engine \<Rightarrow> (role list \<times> string list \<times> bool) \<times> engine" where
  "deploy_roles c now name path [] e = (([], [], True), e)"
| "deploy_roles c now name path (r # rs) e =
     (case createWindow c (windows e) name (role_name r) path of
        None \<Rightarrow> (([], [], False), e)
      | Some w \<Rightarrow>
          (let e1 = e\<lparr>windows := windows e @ [(name, w, path)]\<rparr>
           in case register (agents e1) now r name name w of
                Inl err \<Rightarrow> (([], [], False), e1)
              | Inr (aid, reg) \<Rightarrow>
                  (let e2 = e1\<lparr>agents := (case updateStatus reg aid Active now of
                                            Inl err \<Rightarrow> reg | Inr reg' \<Rightarrow> reg')\<rparr>;
                       e3 = snd (send c now aid (briefing c r) e2);
                       rest = deploy_roles c now name path rs e3
                   in ((r # fst (fst rest), aid # fst (snd (fst rest)), snd (snd (fst rest))),
                       snd rest))))"

text \<open>
  Modelled from the spec: \<open>deploy(projectName, projectPath, templateSize) -> TeamID\<close>
  (section 4.4), whose code is missing. It fails with \<open>ProjectPathNotFound\<close> if the path
  does not resolve and with \<open>UnknownTemplate\<close> for a size the template table does not
  have, both before anything else is done; otherwise it creates the roles of the template
  and records the team. The template table is the README's.
\<close>

definition deploy ::
  "collaborators \<Rightarrow> nat \<Rightarrow> string \<Rightarrow> string \<Rightarrow> string \<Rightarrow> engine \<Rightarrow> (deploy_error + deploy_result) \<times> engine" where
  "deploy c now projectName projectPath templateSize e =
     (if \<not> path_resolves c projectPath then (Inl ProjectPathNotFound, e)
      else case team_template templateSize of
             None \<Rightarrow> (Inl UnknownTemplate, e)
           | Some roles \<Rightarrow>
               (let done = deploy_roles c now projectName projectPath roles e;
                    e' = snd done
                in (Inr \<lparr>teamID = projectName, succeeded = fst (fst done),
                          complete = snd (snd (fst done))\<rparr>,
                    e'\<lparr>teams := teams e' @
                          [\<lparr>team_id = projectName, project_path = projectPath,
                            template_size = templateSize, members = fst (snd (fst done)),
                            created_at = now\<rparr>]\<rparr>)))"

text \<open>
  The roles of the agents a team lists as its members, read from the registry in the
  members' order.
\<close>

definition member_roles :: "engine \<Rightarrow> string list \<Rightarrow> role list" where
  "member_roles e ids =
     concat (map (\<lambda>k. case agents e k of None \<Rightarrow> [] | Some a \<Rightarrow> [role a]) ids)"

text \<open>
  For the examples: an engine that has done nothing yet, and collaborators that always
  succeed; the gateway numbers the windows it creates 0, 1, 2, ...
\<close>

definition engine0 :: engine where
  "engine0 = \<lparr>agents = Map.empty, teams = [], audit_log = [], windows = []\<rparr>"

definition demo_collaborators :: collaborators where
  "demo_collaborators =
     \<lparr>path_resolves = (\<lambda>p. p = ''/tmp/demo''),
      createWindow = (\<lambda>ws s n d. Some (show_nat (length ws))),
      delivery_outcome = (\<lambda>t b. Delivered),
      briefing = role_name\<rparr>"

section \<open>Properties of the AI cross-verification\<close>

lemma callClaude_fulfilled:
  "\<exists>r. callClaude env p = Fulfilled r \<and> js_falsy (error r) = (error r = None)"
  by (simp add: callClaude_def js_falsy_def split: post_outcome.split)

lemma callOpenAI_fulfilled:
  "\<exists>r. callOpenAI env p = Fulfilled r \<and> js_falsy (error r) = (error r = None)"
  by (simp add: callOpenAI_def js_falsy_def split: post_outcome.split)

lemma callGemini_fulfilled:
  "\<exists>r. callGemini env p = Fulfilled r \<and> js_falsy (error r) = (error r = None)"
  by (simp add: callGemini_def js_falsy_def split: post_outcome.split)

lemma filter_falsy_error:
  assumes "js_falsy (error c) = (error c = None)"
    and "js_falsy (error opn) = (error opn = None)"
    and "js_falsy (error g) = (error g = None)"
  shows "filter (\<lambda>r. js_falsy (error r)) [c, opn, g] = filter (\<lambda>r. error r = None) [c, opn, g]"
proof (rule filter_cong [OF refl])
  fix x assume "x \<in> set [c, opn, g]"
  then have "x = c \<or> x = opn \<or> x = g" by simp
  then show "js_falsy (error x) = (error x = None)" using assms by (elim disjE) simp_all
qed

lemma verifyArgumentWithAI_try:
  assumes "callClaude env (prompt_of a) = Fulfilled c"
    and "callOpenAI env (prompt_of a) = Fulfilled opn"
    and "callGemini env (prompt_of a) = Fulfilled g"
  shows "verifyArgumentWithAI env a =
     Fulfilled
       \<lparr>claude_feedback = js_or (feedback c) feedback_unavailable,
        openai_feedback = js_or (feedback opn) feedback_unavailable,
        gemini_feedback = js_or (feedback g) feedback_unavailable,
        consensus = length (filter (\<lambda>r. js_falsy (error r)) [c, opn, g]),
        overall_feedback =
          (if length (filter (\<lambda>r. js_falsy (error r)) [c, opn, g]) = 3 then overall_all_agree
           else if length (filter (\<lambda>r. js_falsy (error r)) [c, opn, g]) = 2 then overall_majority
           else if length (filter (\<lambda>r. js_falsy (error r)) [c, opn, g]) = 1 then overall_needs_review
           else overall_api_error)\<rparr>"
  by (simp only: verifyArgumentWithAI_def Let_def assms promise_all3.simps promise.case prod.case)

text \<open>
  C10. For every argument, \<open>verifyArgumentWithAI\<close> returns a feedback object (its promise
  is fulfilled); \<open>consensus\<close> is the number of the three model calls whose result has no
  \<open>error\<close> field, so it is at most 3; and \<open>overall_feedback\<close> is one fixed text for
  each of the counts 3, 2, 1 and 0.
\<close>

theorem verifyArgumentWithAI_consensus:
  "\<exists>c opn g fb.
     callClaude env (prompt_of a) = Fulfilled c \<and>
     callOpenAI env (prompt_of a) = Fulfilled opn \<and>
     callGemini env (prompt_of a) = Fulfilled g \<and>
     verifyArgumentWithAI env a = Fulfilled fb \<and>
     consensus fb = length (filter (\<lambda>r. error r = None) [c, opn, g]) \<and>
     consensus fb \<le> 3 \<and>
     overall_feedback fb =
       (if consensus fb = 3 then overall_all_agree
        else if consensus fb = 2 then overall_majority
        else if consensus fb = 1 then overall_needs_review
        else overall_api_error)"
proof -
  obtain c where c: "callClaude env (prompt_of a) = Fulfilled c"
    and ce: "js_falsy (error c) = (error c = None)"
    using callClaude_fulfilled [of env "prompt_of a"] by (elim exE conjE)
  obtain opn where o: "callOpenAI env (prompt_of a) = Fulfilled opn"
    and oe: "js_falsy (error opn) = (error opn = None)"
    using callOpenAI_fulfilled [of env "prompt_of a"] by (elim exE conjE)
  obtain g where g: "callGemini env (prompt_of a) = Fulfilled g"
    and ge: "js_falsy (error g) = (error g = None)"
    using callGemini_fulfilled [of env "prompt_of a"] by (elim exE conjE)
  define n where "n = length (filter (\<lambda>r. error r = None) [c, opn, g])"
  define fb where "fb =
     \<lparr>claude_feedback = js_or (feedback c) feedback_unavailable,
      openai_feedback = js_or (feedback opn) feedback_unavailable,
      gemini_feedback = js_or (feedback g) feedback_unavailable,
      consensus = n,
      overall_feedback =
        (if n = 3 then overall_all_agree
         else if n = 2 then overall_majority
         else if n = 1 then overall_needs_review
         else overall_api_error)\<rparr>"
  have v: "verifyArgumentWithAI env a = Fulfilled fb"
    unfolding fb_def n_def
    by (simp only: verifyArgumentWithAI_try [OF c o g] filter_falsy_error [OF ce oe ge])
  have le: "n \<le> 3"
    unfolding n_def by (rule order_trans [OF length_filter_le]) simp
  have cn: "consensus fb = n"
    unfolding fb_def by simp
  have ov: "overall_feedback fb =
       (if n = 3 then overall_all_agree
        else if n = 2 then overall_majority
        else if n = 1 then overall_needs_review
        else overall_api_error)"
    unfolding fb_def by simp
  have cn': "consensus fb = length (filter (\<lambda>r. error r = None) [c, opn, g])"
    unfolding cn n_def by (rule refl)
  have le': "consensus fb \<le> 3"
    unfolding cn by (rule le)
  have ov': "overall_feedback fb =
       (if consensus fb = 3 then overall_all_agree
        else if consensus fb = 2 then overall_majority
        else if consensus fb = 1 then overall_needs_review
        else overall_api_error)"
    unfolding cn by (rule ov)
  show ?thesis
    by (intro exI conjI) (rule c, rule o, rule g, rule v, rule cn', rule le', rule ov')
qed

section \<open>Properties of the shell utilities\<close>

subsection \<open>Loops and scripts\<close>

lemma foldl_body_trace:
  assumes "\<And>l s. trace (bdy l s) = trace s @ f l"
  shows "trace (foldl (\<lambda>s l. bdy l s) s ls) = trace s @ concat (map f ls)"
  using assms by (induction ls arbitrary: s) simp_all

lemma while_read_trace:
  assumes "\<And>l s. trace (bdy l s) = trace s @ f l"
  shows "trace (while_read ls bdy s) = trace s @ concat (map f ls)"
  unfolding while_read_def using foldl_body_trace [of bdy f, OF assms] by simp

lemma foldl_body_status:
  assumes "\<And>l s. last_status (bdy l s) = 0" and "last_status s = 0"
  shows "last_status (foldl (\<lambda>s l. bdy l s) s ls) = 0"
  using assms by (induction ls arbitrary: s) simp_all

lemma while_read_status:
  assumes "\<And>l s. last_status (bdy l s) = 0"
  shows "last_status (while_read ls bdy s) = 0"
  unfolding while_read_def using foldl_body_status [of bdy, OF assms] by simp

subsection \<open>Window lines\<close>

lemma digit_char_not_colon:
  assumes "d < 10"
  shows "digit_char d \<noteq> CHR '':''"
proof -
  from assms have "d = 0 \<or> d = 1 \<or> d = 2 \<or> d = 3 \<or> d = 4 \<or> d = 5 \<or> d = 6 \<or> d = 7 \<or> d = 8 \<or> d = 9"
    by arith
  then show ?thesis
    by (elim disjE) (simp_all add: digit_char_def)
qed

lemma show_nat_no_colon: "CHR '':'' \<notin> set (show_nat n)"
proof (induction n rule: show_nat.induct)
  case (1 n)
  show ?case
  proof (cases "n < 10")
    case True
    then show ?thesis
      using digit_char_not_colon [of n] by (subst show_nat.simps) auto
  next
    case False
    then show ?thesis
      using 1 digit_char_not_colon [of "n mod 10"] by (subst show_nat.simps) auto
  qed
qed

lemma takeWhile_until:
  assumes "\<forall>x \<in> set xs. P x" and "\<not> P y"
  shows "takeWhile P (xs @ y # ys) = xs"
  using assms by (induction xs) simp_all

lemma cut_f1_window_info_line: "cut_f1 (window_info_line iw) = show_nat (fst iw)"
proof -
  have "\<forall>c \<in> set (show_nat (fst iw)). c \<noteq> CHR '':''"
    using show_nat_no_colon [of "fst iw"] by blast
  then have "takeWhile (\<lambda>c. c \<noteq> CHR '':'') (show_nat (fst iw) @ CHR '':'' # snd iw) = show_nat (fst iw)"
    by (rule takeWhile_until) simp
  then show ?thesis by (simp add: cut_f1_def window_info_line_def)
qed

subsection \<open>\<open>broadcast_to_session\<close>\<close>

lemma broadcast_body_trace:
  "trace (script
      [echo (broadcast_line sess win),
       command w (SendMessage (sess @ '':'' @ win) msg),
       sleep 1] s) =
   trace s @ [Stdout (broadcast_line sess win),
     SendMessage (sess @ '':'' @ win) msg, Sleep 1]"
  by (simp add: script_def echo_def command_def sleep_def)

lemma broadcast_body_status:
  "last_status (script
      [echo (broadcast_line sess win),
       command w (SendMessage (sess @ '':'' @ win) msg),
       sleep 1] s) = 0"
  by (simp add: script_def echo_def command_def sleep_def)

lemma broadcast_to_session_trace:
  "trace (broadcast_to_session w sess msg s) =
   trace s @ concat (map (\<lambda>iw.
       [Stdout (broadcast_line sess (show_nat (fst iw))),
        SendMessage (sess @ '':'' @ show_nat (fst iw)) msg,
        Sleep 1]) (list_windows w sess))"
  unfolding broadcast_to_session_def
  by (subst while_read_trace [OF broadcast_body_trace]) (simp add: comp_def)

lemma broadcast_to_session_status:
  "last_status (broadcast_to_session w sess msg s) = 0"
  unfolding broadcast_to_session_def
  by (rule while_read_status [OF broadcast_body_status])

lemma sh_eqI: "trace a = trace b \<Longrightarrow> last_status a = last_status b \<Longrightarrow> a = (b :: sh)"
  by simp

text \<open>
  C1 (amended). \<open>broadcast_to_session session message\<close> runs the send script once
  for every window of the session, in the order tmux lists them and one after another: a
  progress line, the send, one second of sleep. It does so whatever an agent's status and
  whatever exit status a send returns, so a failing send neither stops nor changes the
  sends to the other windows. It returns status 0 and no result per target: what it does
  and returns is the same for every exit status the commands may have.
\<close>

theorem broadcast_to_session_every_window:
  "trace (broadcast_to_session w sess msg sh0) =
     concat (map (\<lambda>iw.
       [Stdout (broadcast_line sess (show_nat (fst iw))),
        SendMessage (sess @ '':'' @ show_nat (fst iw)) msg,
        Sleep 1]) (list_windows w sess)) \<and>
   last_status (broadcast_to_session w sess msg sh0) = 0 \<and>
   broadcast_to_session (w\<lparr>exit_status := st\<rparr>) sess msg sh0 =
     broadcast_to_session w sess msg sh0"
proof (intro conjI)
  show "trace (broadcast_to_session w sess msg sh0) =
     concat (map (\<lambda>iw.
       [Stdout (broadcast_line sess (show_nat (fst iw))),
        SendMessage (sess @ '':'' @ show_nat (fst iw)) msg,
        Sleep 1]) (list_windows w sess))"
    by (simp add: broadcast_to_session_trace sh0_def)
  show "last_status (broadcast_to_session w sess msg sh0) = 0"
    by (rule broadcast_to_session_status)
  show "broadcast_to_session (w\<lparr>exit_status := st\<rparr>) sess msg sh0 =
     broadcast_to_session w sess msg sh0"
    by (rule sh_eqI) (simp_all add: broadcast_to_session_trace broadcast_to_session_status)
qed

text \<open>
  C1 as stated fails: with three windows and a send to \<open>proj:1\<close> that exits
  with status 1, the function does and returns exactly what it does when every send
  succeeds; nothing marks the failed target.
\<close>

theorem broadcast_to_session_no_failed_mark:
  "exit_status (demo_world send_to_1_fails) (SendMessage ''proj:1'' ''hi'') = 1 \<and>
   broadcast_to_session (demo_world send_to_1_fails) ''proj'' ''hi'' sh0 =
     \<lparr>trace =
        [Stdout (broadcast_line ''proj'' ''0''), SendMessage ''proj:0'' ''hi'', Sleep 1,
         Stdout (broadcast_line ''proj'' ''1''), SendMessage ''proj:1'' ''hi'', Sleep 1,
         Stdout (broadcast_line ''proj'' ''2''), SendMessage ''proj:2'' ''hi'', Sleep 1],
      last_status = 0\<rparr> \<and>
   broadcast_to_session (demo_world send_to_1_fails) ''proj'' ''hi'' sh0 =
     broadcast_to_session (demo_world all_succeed) ''proj'' ''hi'' sh0"
  by (simp add: broadcast_to_session_def while_read_def script_def echo_def command_def
      sleep_def sh0_def demo_world_def send_to_1_fails_def all_succeed_def
      show_nat.simps digit_char_def)

subsection \<open>Which utility types into a window itself\<close>

lemma filter_concat_map_singleton:
  assumes "\<And>x. filter P (f x) = [g x]"
  shows "filter P (concat (map f xs)) = map g xs"
  using assms by (induction xs) simp_all

lemma filter_concat_map_nil:
  assumes "\<And>x. filter P (f x) = []"
  shows "filter P (concat (map f xs)) = []"
  using assms by (induction xs) simp_all

lemma broadcast_to_session_no_direct:
  "filter direct_injection (trace (broadcast_to_session w sess msg s)) =
   filter direct_injection (trace s)"
  by (simp add: broadcast_to_session_trace filter_concat_map_nil)

lemma daily_standup_no_direct:
  "filter direct_injection (trace (daily_standup w sess sh0)) = []"
  by (simp add: daily_standup_def script_def echo_def broadcast_to_session_no_direct sh0_def)

lemma commit_reminder_body_trace:
  "trace (script
      [echo (commit_reminder_line target),
       command w (SendMessage target commit_reminder_message)] s) =
   trace s @ [Stdout (commit_reminder_line target), SendMessage target commit_reminder_message]"
  by (simp add: script_def echo_def command_def)

lemma git_commit_reminder_trace:
  "trace (git_commit_reminder w s) =
   trace s @ concat (map (\<lambda>sess.
     concat (map (\<lambda>window_info.
         [Stdout (commit_reminder_line (sess @ '':'' @ cut_f1 window_info)),
          SendMessage (sess @ '':'' @ cut_f1 window_info) commit_reminder_message])
       (filter grep_i_dev_claude (map window_info_line (list_windows w sess)))))
     (list_sessions w))"
  unfolding git_commit_reminder_def Let_def
  by (subst while_read_trace [OF while_read_trace [OF commit_reminder_body_trace]]) (rule refl)

lemma git_commit_reminder_no_direct:
  "filter direct_injection (trace (git_commit_reminder w sh0)) = []"
  by (simp add: git_commit_reminder_trace sh0_def filter_concat_map_nil)

lemma check_git_body_trace:
  "trace (script
      [echo (git_window_line window_name),
       command w (SendKeys target ''git status --short''),
       sleep 1,
       (\<lambda>s. \<lparr>trace = trace s @ CapturePane target # map Stdout (tail_lines 20 (capture_pane w target)),
             last_status = 0\<rparr>)] s) =
   trace s @ ([Stdout (git_window_line window_name), SendKeys target ''git status --short'',
      Sleep 1, CapturePane target] @ map Stdout (tail_lines 20 (capture_pane w target)))"
  by (simp add: script_def echo_def command_def sleep_def)

lemma check_git_status_trace:
  "trace (check_git_status w sess s) =
   trace s @ Stdout (git_check_line sess) #
     concat (map (\<lambda>window_info.
       [Stdout (git_window_line (cut_f2 window_info)),
        SendKeys (sess @ '':'' @ cut_f1 window_info) ''git status --short'',
        Sleep 1, CapturePane (sess @ '':'' @ cut_f1 window_info)] @
       map Stdout (tail_lines 20 (capture_pane w (sess @ '':'' @ cut_f1 window_info))))
     (map window_info_line (list_windows w sess)))"
  unfolding check_git_status_def Let_def
  apply (subst script_def)
  apply (simp only: foldl_Cons foldl_Nil)
  apply (subst while_read_trace [OF check_git_body_trace])
  apply (simp add: echo_def)
  done

lemma filter_map_Stdout_direct: "filter direct_injection (map Stdout ls) = []"
  by (induction ls) simp_all

lemma filter_map_Stdout_via: "filter via_send_script (map Stdout ls) = []"
  by (induction ls) simp_all

lemma check_git_status_direct:
  "filter direct_injection (trace (check_git_status w sess sh0)) =
   map (\<lambda>iw. SendKeys (sess @ '':'' @ show_nat (fst iw)) ''git status --short'')
     (list_windows w sess)"
proof -
  have "filter direct_injection (trace (check_git_status w sess sh0)) =
        map (\<lambda>window_info. SendKeys (sess @ '':'' @ cut_f1 window_info) ''git status --short'')
          (map window_info_line (list_windows w sess))"
    unfolding check_git_status_trace sh0_def
    by (simp add: filter_map_Stdout_direct filter_concat_map_singleton)
  then show ?thesis
    by (simp add: comp_def cut_f1_window_info_line)
qed

lemma check_git_status_not_via_script:
  "filter via_send_script (trace (check_git_status w sess sh0)) = []"
  unfolding check_git_status_trace sh0_def
  by (simp add: filter_map_Stdout_via filter_concat_map_nil)

lemma create_pm_injections:
  "filter (\<lambda>a. direct_injection a \<or> via_send_script a) (trace (create_pm w sess sh0)) =
   [SendKeys (sess @ '':'' @ show_nat
        ((case list_windows w sess of [] \<Rightarrow> 0 | iw # ws \<Rightarrow> fst (last (iw # ws))) + 1)) ''claude'',
    SendMessage (sess @ '':'' @ show_nat
        ((case list_windows w sess of [] \<Rightarrow> 0 | iw # ws \<Rightarrow> fst (last (iw # ws))) + 1)) pm_briefing]"
  by (simp add: create_pm_def Let_def script_def echo_def command_def sleep_def sh0_def)

lemma deploy_project_not_found:
  "find_coding w project_name = [] \<Longrightarrow>
   deploy_project w project_name arg2 sh0 =
     \<lparr>trace = [Stdout (deploy_not_found_line project_name)], last_status = 1\<rparr>"
  by (simp add: deploy_project_def Let_def echo_def sh0_def)

lemma deploy_project_forwards:
  "find_coding w project_name = p # ps \<Longrightarrow> p \<noteq> [] \<Longrightarrow>
   deploy_project w project_name (Some team_size) sh0 =
     \<lparr>trace = [Stdout (deploy_found_line p),
         Stdout (deploy_team_line (if team_size = [] then ''medium'' else team_size)),
         PythonDeploy (basename p) p (if team_size = [] then ''medium'' else team_size)],
      last_status = exit_status w
         (PythonDeploy (basename p) p (if team_size = [] then ''medium'' else team_size))\<rparr>"
  by (simp add: deploy_project_def Let_def script_def echo_def command_def sh0_def)

text \<open>
  C9 (amended). Messages to agents go through the send script: \<open>broadcast_to_session\<close>,
  \<open>daily_standup\<close>, \<open>git_commit_reminder\<close> and the briefing of \<open>create_pm\<close> never
  type into a window themselves (\<open>deploy_project\<close> and \<open>get_session_status\<close> type
  nothing at all). Two utilities do type into windows with \<open>tmux send-keys\<close>:
  \<open>check_git_status\<close> types \<open>git status --short\<close> into every window of the session
  and never calls the send script, and \<open>create_pm\<close> types \<open>claude\<close> into the new
  window before it sends the briefing through the script.
\<close>

theorem text_injection_routes:
  "filter direct_injection (trace (broadcast_to_session w sess msg sh0)) = [] \<and>
   filter direct_injection (trace (daily_standup w sess sh0)) = [] \<and>
   filter direct_injection (trace (git_commit_reminder w sh0)) = [] \<and>
   filter direct_injection (trace (deploy_project w project_name arg2 sh0)) = [] \<and>
   filter direct_injection (trace (get_session_status w sess sh0)) = [] \<and>
   filter direct_injection (trace (check_git_status w sess sh0)) =
     map (\<lambda>iw. SendKeys (sess @ '':'' @ show_nat (fst iw)) ''git status --short'')
       (list_windows w sess) \<and>
   filter via_send_script (trace (check_git_status w sess sh0)) = [] \<and>
   filter (\<lambda>a. direct_injection a \<or> via_send_script a) (trace (create_pm w sess sh0)) =
     [SendKeys (sess @ '':'' @ show_nat
        ((case list_windows w sess of [] \<Rightarrow> 0 | iw # ws \<Rightarrow> fst (last (iw # ws))) + 1)) ''claude'',
      SendMessage (sess @ '':'' @ show_nat
        ((case list_windows w sess of [] \<Rightarrow> 0 | iw # ws \<Rightarrow> fst (last (iw # ws))) + 1)) pm_briefing]"
proof (intro conjI)
  show "filter direct_injection (trace (broadcast_to_session w sess msg sh0)) = []"
    by (simp add: broadcast_to_session_no_direct sh0_def)
  show "filter direct_injection (trace (daily_standup w sess sh0)) = []"
    by (rule daily_standup_no_direct)
  show "filter direct_injection (trace (git_commit_reminder w sh0)) = []"
    by (rule git_commit_reminder_no_direct)
  show "filter direct_injection (trace (deploy_project w project_name arg2 sh0)) = []"
    by (simp add: deploy_project_def Let_def script_def echo_def command_def sh0_def)
  show "filter direct_injection (trace (get_session_status w sess sh0)) = []"
    by (simp add: get_session_status_def command_def sh0_def)
  show "filter direct_injection (trace (check_git_status w sess sh0)) =
     map (\<lambda>iw. SendKeys (sess @ '':'' @ show_nat (fst iw)) ''git status --short'')
       (list_windows w sess)"
    by (rule check_git_status_direct)
  show "filter via_send_script (trace (check_git_status w sess sh0)) = []"
    by (rule check_git_status_not_via_script)
  show "filter (\<lambda>a. direct_injection a \<or> via_send_script a) (trace (create_pm w sess sh0)) =
     [SendKeys (sess @ '':'' @ show_nat
        ((case list_windows w sess of [] \<Rightarrow> 0 | iw # ws \<Rightarrow> fst (last (iw # ws))) + 1)) ''claude'',
      SendMessage (sess @ '':'' @ show_nat
        ((case list_windows w sess of [] \<Rightarrow> 0 | iw # ws \<Rightarrow> fst (last (iw # ws))) + 1)) pm_briefing]"
    by (rule create_pm_injections)
qed

text \<open>
  C9 as stated fails: in a session with three windows \<open>check_git_status\<close>
  types into each of them with \<open>tmux send-keys\<close> and never calls the send script.
\<close>

theorem check_git_status_types_directly:
  "filter direct_injection (trace (check_git_status (demo_world all_succeed) ''proj'' sh0)) =
     [SendKeys ''proj:0'' ''git status --short'',
      SendKeys ''proj:1'' ''git status --short'',
      SendKeys ''proj:2'' ''git status --short''] \<and>
   filter via_send_script (trace (check_git_status (demo_world all_succeed) ''proj'' sh0)) = []"
  by (simp add: check_git_status_direct check_git_status_not_via_script demo_world_def
      show_nat.simps digit_char_def)

section \<open>Properties of the registry\<close>

lemma register_fresh:
  "reg (agent_key s w) = None \<Longrightarrow> \<exists>reg'. register reg now r t s w = Inr (agent_key s w, reg')"
  by (simp add: register_def Let_def)

lemma register_result:
  assumes "register reg now r t s w = Inr (aid, reg')"
  shows "aid = agent_key s w"
    and "reg' = reg(agent_key s w \<mapsto>
           \<lparr>identity = agent_key s w, role = r, team = t, session = s, window = w,
            status = Provisioning, last_seen = now, last_message_sent = None\<rparr>)"
  using assms
  by (auto simp: register_def Let_def split: option.splits if_splits)

lemma register_duplicate:
  assumes "reg (agent_key s w) = Some b" and "status b \<noteq> Retired"
  shows "register reg now r t s w = Inl DuplicateIdentity"
  using assms by (simp add: register_def Let_def)

text \<open>
  C4. When \<open>register\<close> returns an AgentID, \<open>get\<close> on it returns an agent with the
  role, team, session and window that were registered; a second \<open>register\<close> of the same
  \<open>session:window\<close> fails with \<open>DuplicateIdentity\<close>, and so does it in any registry
  that holds a registration of that \<open>session:window\<close> which is not Retired; after
  \<open>retire\<close>, registering the same \<open>session:window\<close> succeeds again.
\<close>

theorem register_get_retire:
  assumes "register reg now r t s w = Inr (aid, reg')"
  shows "(\<exists>a. get reg' aid = Inr a \<and> identity a = aid \<and> role a = r \<and> agent.team a = t \<and>
            session a = s \<and> window a = w) \<and>
         register reg' now' r' t' s w = Inl DuplicateIdentity \<and>
         (\<forall>reg2 b. reg2 (agent_key s w) = Some b \<and> status b \<noteq> Retired \<longrightarrow>
            register reg2 now' r' t' s w = Inl DuplicateIdentity) \<and>
         (\<exists>reg2 reg3 a. retire reg' aid = Inr reg2 \<and>
            register reg2 now' r' t' s w = Inr (aid, reg3) \<and>
            get reg3 aid = Inr a \<and> role a = r' \<and> agent.team a = t' \<and> status a \<noteq> Retired)"
proof -
  note res = register_result [OF assms]
  have g: "\<exists>a. get reg' aid = Inr a \<and> identity a = aid \<and> role a = r \<and> agent.team a = t \<and>
            session a = s \<and> window a = w"
    by (simp add: res get_def)
  have stored: "reg' (agent_key s w) =
      Some \<lparr>identity = agent_key s w, role = r, team = t, session = s, window = w,
            status = Provisioning, last_seen = now, last_message_sent = None\<rparr>"
    by (simp add: res)
  have d: "register reg' now' r' t' s w = Inl DuplicateIdentity"
    using stored by (simp add: register_def Let_def)
  have d2: "\<forall>reg2 b. reg2 (agent_key s w) = Some b \<and> status b \<noteq> Retired \<longrightarrow>
            register reg2 now' r' t' s w = Inl DuplicateIdentity"
    by (simp add: register_def Let_def)
  have again: "\<exists>reg2 reg3 a. retire reg' aid = Inr reg2 \<and>
            register reg2 now' r' t' s w = Inr (aid, reg3) \<and>
            get reg3 aid = Inr a \<and> role a = r' \<and> agent.team a = t' \<and> status a \<noteq> Retired"
    by (simp add: res retire_def register_def Let_def get_def)
  from g d d2 again show ?thesis by (intro conjI)
qed

text \<open>
  C4 at a concrete input: registering \<open>demo:0\<close> in the empty registry succeeds, and
  registering it again fails.
\<close>

theorem register_get_retire_witness:
  "register Map.empty 7 Developer ''demo'' ''demo'' ''0'' =
     Inr (''demo:0'',
       Map.empty(''demo:0'' \<mapsto>
         \<lparr>identity = ''demo:0'', role = Developer, team = ''demo'', session = ''demo'',
          window = ''0'', status = Provisioning, last_seen = 7, last_message_sent = None\<rparr>)) \<and>
   register (Map.empty(''demo:0'' \<mapsto>
         \<lparr>identity = ''demo:0'', role = Developer, team = ''demo'', session = ''demo'',
          window = ''0'', status = Provisioning, last_seen = 7, last_message_sent = None\<rparr>))
       9 QA ''other'' ''demo'' ''0'' = Inl DuplicateIdentity"
proof -
  have first: "register Map.empty 7 Developer ''demo'' ''demo'' ''0'' =
     Inr (''demo:0'',
       Map.empty(''demo:0'' \<mapsto>
         \<lparr>identity = ''demo:0'', role = Developer, team = ''demo'', session = ''demo'',
          window = ''0'', status = Provisioning, last_seen = 7, last_message_sent = None\<rparr>))"
    by (simp add: register_def agent_key_def Let_def)
  from register_get_retire [OF first, of 9 QA "''other''"] first show ?thesis
    by (intro conjI) (rule first, elim conjE, assumption)
qed

section \<open>Properties of the deployment\<close>

lemma send_windows: "windows (snd (send c now target text e)) = windows e"
  by (simp add: send_def Let_def)

lemma deploy_roles_windows:
  "\<exists>ws. windows (snd (deploy_roles c now name path rs e)) = windows e @ ws"
proof (induction rs arbitrary: e)
  case Nil
  show ?case by simp
next
  case (Cons r rs)
  show ?case
  proof (cases "createWindow c (windows e) name (role_name r) path")
    case None
    then show ?thesis by simp
  next
    case (Some w)
    let ?e1 = "e\<lparr>windows := windows e @ [(name, w, path)]\<rparr>"
    show ?thesis
    proof (cases "register (agents ?e1) now r name name w")
      case (Inl err)
      with Some show ?thesis by (simp add: Let_def)
    next
      case (Inr p)
      obtain aid reg where p: "p = (aid, reg)" by (cases p)
      let ?e2 = "?e1\<lparr>agents := (case updateStatus reg aid Active now of
                                            Inl err \<Rightarrow> reg | Inr reg' \<Rightarrow> reg')\<rparr>"
      let ?e3 = "snd (send c now aid (briefing c r) ?e2)"
      obtain ws where ws: "windows (snd (deploy_roles c now name path rs ?e3)) = windows ?e3 @ ws"
        using Cons.IH [of ?e3] by (elim exE)
      have "windows (snd (deploy_roles c now name path (r # rs) e)) =
            windows (snd (deploy_roles c now name path rs ?e3))"
        using Some Inr p by (simp add: Let_def)
      also have "\<dots> = windows e @ ((name, w, path) # ws)"
        unfolding ws by (simp add: send_windows)
      finally show ?thesis by (intro exI)
    qed
  qed
qed

lemma deploy_roles_first_window:
  assumes "createWindow c (windows e) name (role_name r) path = Some w"
  shows "\<exists>ws. windows (snd (deploy_roles c now name path (r # rs) e)) =
           windows e @ (name, w, path) # ws"
proof (cases "register (agents (e\<lparr>windows := windows e @ [(name, w, path)]\<rparr>)) now r name name w")
  case (Inl err)
  with assms show ?thesis by (simp add: Let_def)
next
  case (Inr p)
  obtain aid reg where p: "p = (aid, reg)" by (cases p)
  let ?e1 = "e\<lparr>windows := windows e @ [(name, w, path)]\<rparr>"
  let ?e2 = "?e1\<lparr>agents := (case updateStatus reg aid Active now of
                                        Inl err \<Rightarrow> reg | Inr reg' \<Rightarrow> reg')\<rparr>"
  let ?e3 = "snd (send c now aid (briefing c r) ?e2)"
  obtain ws where ws: "windows (snd (deploy_roles c now name path rs ?e3)) = windows ?e3 @ ws"
    using deploy_roles_windows [of c now name path rs ?e3] by (elim exE)
  have "windows (snd (deploy_roles c now name path (r # rs) e)) =
        windows (snd (deploy_roles c now name path rs ?e3))"
    using assms Inr p by (simp add: Let_def)
  also have "\<dots> = windows e @ (name, w, path) # ws"
    unfolding ws by (simp add: send_windows)
  finally show ?thesis by (intro exI)
qed

lemma deploy_valid_creates_window:
  assumes "path_resolves c projectPath"
    and "team_template templateSize = Some (r # rs)"
    and "createWindow c (windows e) projectName (role_name r) projectPath = Some w"
  shows "windows (snd (deploy c now projectName projectPath templateSize e)) \<noteq> windows e"
proof -
  obtain ws where ws: "windows (snd (deploy_roles c now projectName projectPath (r # rs) e)) =
      windows e @ (projectName, w, projectPath) # ws"
    using deploy_roles_first_window [OF assms(3), of now rs] by (elim exE)
  have "windows (snd (deploy c now projectName projectPath templateSize e)) =
        windows (snd (deploy_roles c now projectName projectPath (r # rs) e))"
    using assms(1,2) by (simp add: deploy_def Let_def)
  then show ?thesis
    unfolding ws by simp
qed

text \<open>
  C8. \<open>deploy\<close> fails with \<open>ProjectPathNotFound\<close> when the project path does not
  resolve, and with \<open>UnknownTemplate\<close> when the path resolves and the size is none of
  the templates. Whenever it fails, the engine's state is returned as it was (no window
  created, no agent registered, no message sent), and it fails for these two reasons
  only. The shell front end \<open>deploy_project\<close> rejects a project that \<open>find\<close> does
  not list the same way: an error line, status 1, and the deployer is never run.
\<close>

theorem deploy_rejects_before_side_effects:
  "(\<not> path_resolves c projectPath \<longrightarrow>
      deploy c now projectName projectPath templateSize e = (Inl ProjectPathNotFound, e)) \<and>
   (path_resolves c projectPath \<and> team_template templateSize = None \<longrightarrow>
      deploy c now projectName projectPath templateSize e = (Inl UnknownTemplate, e)) \<and>
   (\<forall>err. fst (deploy c now projectName projectPath templateSize e) = Inl err \<longrightarrow>
      snd (deploy c now projectName projectPath templateSize e) = e \<and>
      (\<not> path_resolves c projectPath \<or> team_template templateSize = None)) \<and>
   (find_coding w project_name = [] \<longrightarrow>
      deploy_project w project_name arg2 sh0 =
        \<lparr>trace = [Stdout (deploy_not_found_line project_name)], last_status = 1\<rparr>)"
proof (intro conjI impI allI)
  assume "\<not> path_resolves c projectPath"
  then show "deploy c now projectName projectPath templateSize e = (Inl ProjectPathNotFound, e)"
    by (simp add: deploy_def)
next
  assume "path_resolves c projectPath \<and> team_template templateSize = None"
  then show "deploy c now projectName projectPath templateSize e = (Inl UnknownTemplate, e)"
    by (simp add: deploy_def)
next
  fix err
  assume failed: "fst (deploy c now projectName projectPath templateSize e) = Inl err"
  show "snd (deploy c now projectName projectPath templateSize e) = e"
  proof (cases "path_resolves c projectPath")
    case False
    then show ?thesis by (simp add: deploy_def)
  next
    case True
    with failed show ?thesis
      by (cases "team_template templateSize") (simp_all add: deploy_def Let_def)
  qed
  show "\<not> path_resolves c projectPath \<or> team_template templateSize = None"
  proof (cases "team_template templateSize")
    case None
    then show ?thesis by simp
  next
    case (Some roles)
    with failed show ?thesis
      by (cases "path_resolves c projectPath") (simp_all add: deploy_def Let_def)
  qed
next
  assume "find_coding w project_name = []"
  then show "deploy_project w project_name arg2 sh0 =
        \<lparr>trace = [Stdout (deploy_not_found_line project_name)], last_status = 1\<rparr>"
    by (rule deploy_project_not_found)
qed

text \<open>
  C8 at concrete inputs: a path that does not resolve, a size \<open>huge\<close> that is no
  template, and a project name that \<open>find\<close> does not list.
\<close>

theorem deploy_rejects_before_side_effects_witness:
  "\<not> path_resolves demo_collaborators ''/nowhere'' \<and>
   deploy demo_collaborators 3 ''demo'' ''/nowhere'' ''small'' engine0 =
     (Inl ProjectPathNotFound, engine0) \<and>
   path_resolves demo_collaborators ''/tmp/demo'' \<and> team_template ''huge'' = None \<and>
   deploy demo_collaborators 3 ''demo'' ''/tmp/demo'' ''huge'' engine0 =
     (Inl UnknownTemplate, engine0) \<and>
   find_coding (demo_world all_succeed) ''nothing'' = [] \<and>
   deploy_project (demo_world all_succeed) ''nothing'' (Some ''small'') sh0 =
     \<lparr>trace = [Stdout (deploy_not_found_line ''nothing'')], last_status = 1\<rparr>"
proof -
  have h1: "\<not> path_resolves demo_collaborators ''/nowhere''"
    by (simp add: demo_collaborators_def)
  have h2: "path_resolves demo_collaborators ''/tmp/demo''"
    by (simp add: demo_collaborators_def)
  have h3: "team_template ''huge'' = None"
    by (simp add: team_template_def)
  have h4: "find_coding (demo_world all_succeed) ''nothing'' = []"
    by (simp add: demo_world_def)
  note thm1 = deploy_rejects_before_side_effects
      [of demo_collaborators "''/nowhere''" 3 "''demo''" "''small''" engine0
          "demo_world all_succeed" "''nothing''" "Some ''small''"]
  note thm2 = deploy_rejects_before_side_effects
      [of demo_collaborators "''/tmp/demo''" 3 "''demo''" "''huge''" engine0
          "demo_world all_succeed" "''nothing''" "Some ''small''"]
  have c1: "deploy demo_collaborators 3 ''demo'' ''/nowhere'' ''small'' engine0 =
     (Inl ProjectPathNotFound, engine0)"
    using thm1 h1 by blast
  have c2: "deploy demo_collaborators 3 ''demo'' ''/tmp/demo'' ''huge'' engine0 =
     (Inl UnknownTemplate, engine0)"
    using thm2 h2 h3 by blast
  have c3: "deploy_project (demo_world all_succeed) ''nothing'' (Some ''small'') sh0 =
     \<lparr>trace = [Stdout (deploy_not_found_line ''nothing'')], last_status = 1\<rparr>"
    using thm1 h4 by blast
  from h1 c1 h2 h3 c2 h4 c3 show ?thesis by (intro conjI)
qed

section \<open>Properties of the deployed teams\<close>

lemma send_agents: "agents (snd (send c now target text e)) = agents e"
  by (simp add: send_def Let_def)

lemma deploy_roles_keeps:
  assumes "agents e k = Some a" and "status a \<noteq> Retired"
  shows "agents (snd (deploy_roles c now name path rs e)) k = Some a"
  using assms
proof (induction rs arbitrary: e)
  case Nil
  then show ?case by simp
next
  case (Cons r rs)
  show ?case
  proof (cases "createWindow c (windows e) name (role_name r) path")
    case None
    with Cons.prems show ?thesis by simp
  next
    case (Some w)
    let ?e1 = "e\<lparr>windows := windows e @ [(name, w, path)]\<rparr>"
    show ?thesis
    proof (cases "register (agents ?e1) now r name name w")
      case (Inl err)
      with Some Cons.prems show ?thesis by (simp add: Let_def)
    next
      case (Inr p)
      obtain aid reg where p: "p = (aid, reg)" by (cases p)
      from Inr p have reg: "register (agents e) now r name name w = Inr (aid, reg)" by simp
      note res = register_result [OF reg]
      have ne: "aid \<noteq> k"
      proof
        assume "aid = k"
        with res(1) Cons.prems have "register (agents e) now r name name w = Inl DuplicateIdentity"
          by (intro register_duplicate [of _ _ _ a]) simp_all
        with reg show False by simp
      qed
      let ?e2 = "?e1\<lparr>agents := (case updateStatus reg aid Active now of
                                            Inl err \<Rightarrow> reg | Inr reg' \<Rightarrow> reg')\<rparr>"
      let ?e3 = "snd (send c now aid (briefing c r) ?e2)"
      have "reg k = Some a" using res(2) res(1) ne Cons.prems(1) by simp
      then have "agents ?e3 k = Some a"
        using ne by (simp add: send_agents updateStatus_def split: option.splits)
      then have "agents (snd (deploy_roles c now name path rs ?e3)) k = Some a"
        using Cons.prems(2) by (rule Cons.IH)
      moreover have "snd (deploy_roles c now name path (r # rs) e) =
            snd (deploy_roles c now name path rs ?e3)"
        using Some Inr p by (simp add: Let_def)
      ultimately show ?thesis by simp
    qed
  qed
qed


lemma deploy_roles_prefix:
  "\<exists>k. fst (fst (deploy_roles c now name path rs e)) = take k rs"
proof (induction rs arbitrary: e)
  case Nil
  show ?case by simp
next
  case (Cons r rs)
  show ?case
  proof (cases "createWindow c (windows e) name (role_name r) path")
    case None
    then have "fst (fst (deploy_roles c now name path (r # rs) e)) = take 0 (r # rs)" by simp
    then show ?thesis by (rule exI)
  next
    case (Some w)
    let ?e1 = "e\<lparr>windows := windows e @ [(name, w, path)]\<rparr>"
    show ?thesis
    proof (cases "register (agents ?e1) now r name name w")
      case (Inl err)
      with Some have "fst (fst (deploy_roles c now name path (r # rs) e)) = take 0 (r # rs)"
        by (simp add: Let_def)
      then show ?thesis by (rule exI)
    next
      case (Inr p)
      obtain aid reg where p: "p = (aid, reg)" by (cases p)
      let ?e2 = "?e1\<lparr>agents := (case updateStatus reg aid Active now of
                                            Inl err \<Rightarrow> reg | Inr reg' \<Rightarrow> reg')\<rparr>"
      let ?e3 = "snd (send c now aid (briefing c r) ?e2)"
      obtain k where k: "fst (fst (deploy_roles c now name path rs ?e3)) = take k rs"
        using Cons.IH [of ?e3] by (elim exE)
      have "fst (fst (deploy_roles c now name path (r # rs) e)) =
            r # fst (fst (deploy_roles c now name path rs ?e3))"
        using Some Inr p by (simp add: Let_def)
      then have "fst (fst (deploy_roles c now name path (r # rs) e)) = take (Suc k) (r # rs)"
        unfolding k by simp
      then show ?thesis by (rule exI)
    qed
  qed
qed

lemma member_roles_Cons:
  "member_roles e (k # ks) =
     (case agents e k of None \<Rightarrow> [] | Some a \<Rightarrow> [role a]) @ member_roles e ks"
  by (simp add: member_roles_def)

lemma deploy_roles_members:
  "member_roles (snd (deploy_roles c now name path rs e))
     (fst (snd (fst (deploy_roles c now name path rs e)))) =
   fst (fst (deploy_roles c now name path rs e))"
proof (induction rs arbitrary: e)
  case Nil
  show ?case by (simp add: member_roles_def)
next
  case (Cons r rs)
  show ?case
  proof (cases "createWindow c (windows e) name (role_name r) path")
    case None
    then show ?thesis by (simp add: member_roles_def)
  next
    case (Some w)
    let ?e1 = "e\<lparr>windows := windows e @ [(name, w, path)]\<rparr>"
    show ?thesis
    proof (cases "register (agents ?e1) now r name name w")
      case (Inl err)
      with Some show ?thesis by (simp add: Let_def member_roles_def)
    next
      case (Inr p)
      obtain aid reg where p: "p = (aid, reg)" by (cases p)
      from Inr p have reg: "register (agents e) now r name name w = Inr (aid, reg)" by simp
      note res = register_result [OF reg]
      let ?a = "\<lparr>identity = agent_key name w, role = r, team = name, session = name,
                 window = w, status = Active, last_seen = now, last_message_sent = None\<rparr>"
      let ?e2 = "?e1\<lparr>agents := (case updateStatus reg aid Active now of
                                            Inl err \<Rightarrow> reg | Inr reg' \<Rightarrow> reg')\<rparr>"
      let ?e3 = "snd (send c now aid (briefing c r) ?e2)"
      let ?rest = "deploy_roles c now name path rs ?e3"
      have "agents ?e3 aid = Some ?a"
        unfolding res by (simp add: send_agents updateStatus_def)
      then have kept: "agents (snd ?rest) aid = Some ?a"
        by (rule deploy_roles_keeps) simp
      have unfold: "deploy_roles c now name path (r # rs) e =
          ((r # fst (fst ?rest), aid # fst (snd (fst ?rest)), snd (snd (fst ?rest))), snd ?rest)"
        using Some Inr p by (simp add: Let_def)
      have "member_roles (snd ?rest) (aid # fst (snd (fst ?rest))) = r # fst (fst ?rest)"
        unfolding member_roles_Cons using kept Cons.IH [of ?e3] by simp
      then show ?thesis
        unfolding unfold by simp
    qed
  qed
qed

lemma member_roles_teams: "member_roles (e\<lparr>teams := ts\<rparr>) ids = member_roles e ids"
  by (simp add: member_roles_def)

lemma count_list_take_le: "count_list (take k xs) r \<le> count_list xs r"
proof (induction xs arbitrary: k)
  case Nil
  then show ?case by simp
next
  case (Cons x xs)
  then show ?case by (cases k) simp_all
qed

lemma deploy_roles_teams: "teams (snd (deploy_roles c now name path rs e)) = teams e"
proof (induction rs arbitrary: e)
  case Nil
  show ?case by simp
next
  case (Cons r rs)
  show ?case
  proof (cases "createWindow c (windows e) name (role_name r) path")
    case None
    then show ?thesis by simp
  next
    case (Some w)
    let ?e1 = "e\<lparr>windows := windows e @ [(name, w, path)]\<rparr>"
    show ?thesis
    proof (cases "register (agents ?e1) now r name name w")
      case (Inl err)
      with Some show ?thesis by (simp add: Let_def)
    next
      case (Inr p)
      obtain aid reg where p: "p = (aid, reg)" by (cases p)
      let ?e2 = "?e1\<lparr>agents := (case updateStatus reg aid Active now of
                                            Inl err \<Rightarrow> reg | Inr reg' \<Rightarrow> reg')\<rparr>"
      let ?e3 = "snd (send c now aid (briefing c r) ?e2)"
      have "teams (snd (deploy_roles c now name path (r # rs) e)) =
            teams (snd (deploy_roles c now name path rs ?e3))"
        using Some Inr p by (simp add: Let_def)
      also have "\<dots> = teams ?e3" by (rule Cons.IH)
      also have "\<dots> = teams e" by (simp add: send_def Let_def)
      finally show ?thesis .
    qed
  qed
qed

lemma template_counts:
  assumes "team_template templateSize = Some roles"
  shows "count_list roles r \<le>
     (if r = Developer
      then (if templateSize = ''small'' then 1 else if templateSize = ''medium'' then 2 else 3)
      else 1)"
proof -
  consider "templateSize = ''small''" | "templateSize = ''medium''" | "templateSize = ''large''"
    using assms by (auto simp: team_template_def split: if_splits)
  then show ?thesis
  proof cases
    case 1
    with assms have "roles = [Developer, ProjectManager]" by (simp add: team_template_def)
    with 1 show ?thesis by (cases r) simp_all
  next
    case 2
    with assms have "roles = [Developer, Developer, ProjectManager, QA]"
      by (simp add: team_template_def)
    with 2 show ?thesis by (cases r) simp_all
  next
    case 3
    with assms have "roles = [Developer, Developer, Developer, ProjectManager, QA, DevOps, Reviewer]"
      by (simp add: team_template_def)
    with 3 show ?thesis by (cases r) simp_all
  qed
qed

text \<open>
  C3 (amended). A team that \<open>deploy\<close> creates holds the roles of the first entries of
  its template, one agent for each. In a team of the small template no role appears more
  than once. In a team of the medium or the large template every role but Developer
  appears at most once, and Developer appears at most twice in a medium team and at most
  three times in a large one.
\<close>

theorem deployed_team_role_multiplicity:
  assumes "deploy c now projectName projectPath templateSize e = (Inr res, e')"
  shows "\<exists>t roles k.
           teams e' = teams e @ [t] \<and> team_id t = teamID res \<and>
           template_size t = templateSize \<and>
           team_template templateSize = Some roles \<and>
           succeeded res = take k roles \<and>
           member_roles e' (members t) = succeeded res \<and>
           count_list (member_roles e' (members t)) r \<le>
             (if r = Developer
              then (if templateSize = ''small'' then 1
                    else if templateSize = ''medium'' then 2 else 3)
              else 1)"
proof -
  from assms have resolves: "path_resolves c projectPath"
    by (auto simp: deploy_def split: if_splits)
  from assms resolves obtain roles where roles: "team_template templateSize = Some roles"
    by (cases "team_template templateSize") (simp_all add: deploy_def)
  let ?done = "deploy_roles c now projectName projectPath roles e"
  let ?t = "\<lparr>team_id = projectName, project_path = projectPath,
             template_size = templateSize, members = fst (snd (fst ?done)), created_at = now\<rparr>"
  from assms resolves roles
  have res: "res = \<lparr>teamID = projectName, succeeded = fst (fst ?done),
                     complete = snd (snd (fst ?done))\<rparr>"
    and e': "e' = (snd ?done)\<lparr>teams := teams (snd ?done) @ [?t]\<rparr>"
    by (simp_all add: deploy_def Let_def)
  obtain k where k: "fst (fst ?done) = take k roles"
    using deploy_roles_prefix [of c now projectName projectPath roles e] by (elim exE)
  have t1: "teams e' = teams e @ [?t]"
    unfolding e' by (simp add: deploy_roles_teams)
  have t2: "team_id ?t = teamID res" unfolding res by simp
  have t3: "template_size ?t = templateSize" by simp
  have t4: "succeeded res = take k roles" unfolding res using k by simp
  have t5: "member_roles e' (members ?t) = succeeded res"
    unfolding e' res by (simp add: member_roles_teams deploy_roles_members)
  have "count_list (take k roles) r \<le> count_list roles r" by (rule count_list_take_le)
  also note template_counts [OF roles, of r]
  finally have t6: "count_list (member_roles e' (members ?t)) r \<le>
             (if r = Developer
              then (if templateSize = ''small'' then 1
                    else if templateSize = ''medium'' then 2 else 3)
              else 1)"
    unfolding t5 t4 .
  from t1 t2 t3 roles t4 t5 t6 show ?thesis by blast
qed

text \<open>
  C3 at a concrete input: with a gateway that creates every window, deploying the small
  template gives a team of one Developer and one ProjectManager.
\<close>

theorem deployed_team_role_multiplicity_witness:
  "fst (deploy demo_collaborators 3 ''demo'' ''/tmp/demo'' ''small'' engine0) =
     Inr \<lparr>teamID = ''demo'', succeeded = [Developer, ProjectManager], complete = True\<rparr> \<and>
   member_roles (snd (deploy demo_collaborators 3 ''demo'' ''/tmp/demo'' ''small'' engine0))
     (members (last (teams (snd (deploy demo_collaborators 3 ''demo'' ''/tmp/demo'' ''small'' engine0))))) =
     [Developer, ProjectManager] \<and>
   count_list
     (member_roles (snd (deploy demo_collaborators 3 ''demo'' ''/tmp/demo'' ''small'' engine0))
       (members (last (teams (snd (deploy demo_collaborators 3 ''demo'' ''/tmp/demo'' ''small'' engine0))))))
     Developer \<le> 1"
proof -
  let ?D = "deploy demo_collaborators 3 ''demo'' ''/tmp/demo'' ''small'' engine0"
  let ?R = "\<lparr>teamID = ''demo'', succeeded = [Developer, ProjectManager], complete = True\<rparr>"
  have f: "fst ?D = Inr ?R" by code_simp
  then have eq: "?D = (Inr ?R, snd ?D)" by (simp add: prod_eq_iff)
  obtain t roles k where t: "teams (snd ?D) = teams engine0 @ [t]"
    and m: "member_roles (snd ?D) (members t) = succeeded ?R"
    and n: "count_list (member_roles (snd ?D) (members t)) Developer \<le>
             (if Developer = Developer
              then (if ''small'' = ''small'' then 1 else if ''small'' = ''medium'' then 2 else 3)
              else 1)"
    using deployed_team_role_multiplicity [OF eq, of Developer] by (elim exE conjE)
  from t have l: "last (teams (snd ?D)) = t" by simp
  from m have m': "member_roles (snd ?D) (members (last (teams (snd ?D)))) = [Developer, ProjectManager]"
    unfolding l by simp
  from n have n': "count_list (member_roles (snd ?D) (members (last (teams (snd ?D))))) Developer \<le> 1"
    unfolding l by simp
  from f m' n' show ?thesis by (intro conjI)
qed

text \<open>
  C3 as stated fails for the medium template: with a gateway that creates every window,
  \<open>deploy\<close> completes and the team it records has two Developer agents.
\<close>

theorem deploy_medium_two_developers:
  "fst (deploy demo_collaborators 3 ''demo'' ''/tmp/demo'' ''medium'' engine0) =
     Inr \<lparr>teamID = ''demo'', succeeded = [Developer, Developer, ProjectManager, QA],
           complete = True\<rparr> \<and>
   member_roles (snd (deploy demo_collaborators 3 ''demo'' ''/tmp/demo'' ''medium'' engine0))
     (members (last (teams (snd (deploy demo_collaborators 3 ''demo'' ''/tmp/demo'' ''medium'' engine0))))) =
     [Developer, Developer, ProjectManager, QA] \<and>
   \<not> distinct
     (member_roles (snd (deploy demo_collaborators 3 ''demo'' ''/tmp/demo'' ''medium'' engine0))
       (members (last (teams (snd (deploy demo_collaborators 3 ''demo'' ''/tmp/demo'' ''medium'' engine0))))))"
proof -
  let ?D = "deploy demo_collaborators 3 ''demo'' ''/tmp/demo'' ''medium'' engine0"
  have f: "fst ?D = Inr \<lparr>teamID = ''demo'', succeeded = [Developer, Developer, ProjectManager, QA],
           complete = True\<rparr>"
    by code_simp
  have m: "member_roles (snd ?D) (members (last (teams (snd ?D)))) =
     [Developer, Developer, ProjectManager, QA]"
    by code_simp
  have d: "\<not> distinct (member_roles (snd ?D) (members (last (teams (snd ?D)))))"
    unfolding m by simp
  from f m d show ?thesis by (intro conjI)
qed

end
